theory Spec2Isabelle
  imports Main
begin

section \<open>Python values used by the ticket monitor\<close>

text \<open>
  Strings are Python \<open>str\<close> values in their UTF-8 encoding, one \<open>char\<close> per byte.
  An exception is a value of type \<open>error\<close>; a computation that may raise returns
  \<open>error + 'a\<close> with \<open>Inl\<close> for the exception. \<open>Raised m\<close> is an exception of a
  collaborator (the HTTP library, the feed service) whose \<open>str(e)\<close> is \<open>m\<close>.
\<close>

datatype error =
    AttributeError
  | IndexError
  | KeyError
  | TypeError
  | ValueError
  | Raised string

text \<open>The value that \<open>response.json()\<close> and \<open>json.loads\<close> produce.\<close>

datatype json =
    JNull
  | JBool bool
  | JNum int
  | JStr string
  | JArr "json list"
  | JObj "(string \<times> json) list"

definition bind_err :: "error + 'a \<Rightarrow> ('a \<Rightarrow> error + 'b) \<Rightarrow> error + 'b" where
  "bind_err m f = (case m of Inl e \<Rightarrow> Inl e | Inr v \<Rightarrow> f v)"

text \<open>\<open>try: body  except Exception as e: handler(e)\<close>\<close>

definition try_except :: "error + 'a \<Rightarrow> (error \<Rightarrow> error + 'a) \<Rightarrow> error + 'a" where
  "try_except body handler = (case body of Inl e \<Rightarrow> handler e | Inr v \<Rightarrow> Inr v)"

text \<open>
  \<open>d.get(key, default)\<close>: only a dict has the method; a JSON object with a repeated key
  keeps the last value.
\<close>

fun py_get :: "json \<Rightarrow> string \<Rightarrow> json \<Rightarrow> error + json" where
  "py_get (JObj kvs) k d = (case map_of (rev kvs) k of None \<Rightarrow> Inr d | Some v \<Rightarrow> Inr v)"
| "py_get _ k d = Inl AttributeError"

text \<open>\<open>x[0]\<close>: the first element of a list or the first character of a string; a JSON
  object has only string keys, so the key \<open>0\<close> is missing; other values are not
  subscriptable.\<close>

fun py_index0 :: "json \<Rightarrow> error + json" where
  "py_index0 (JArr []) = Inl IndexError"
| "py_index0 (JArr (x # xs)) = Inr x"
| "py_index0 (JStr []) = Inl IndexError"
| "py_index0 (JStr (c # cs)) = Inr (JStr [c])"
| "py_index0 (JObj kvs) = Inl KeyError"
| "py_index0 _ = Inl TypeError"

text \<open>
  The UTF-8 encodings of the code points that \<open>str.strip()\<close> removes (those for which
  \<open>str.isspace\<close> holds).
\<close>

definition whitespace :: "string list" where
  "whitespace =
    [[CHR 0x09], [CHR 0x0A], [CHR 0x0B], [CHR 0x0C], [CHR 0x0D],
     [CHR 0x1C], [CHR 0x1D], [CHR 0x1E], [CHR 0x1F], [CHR 0x20],
     [CHR 0xC2, CHR 0x85], [CHR 0xC2, CHR 0xA0],
     [CHR 0xE1, CHR 0x9A, CHR 0x80],
     [CHR 0xE2, CHR 0x80, CHR 0x80], [CHR 0xE2, CHR 0x80, CHR 0x81],
     [CHR 0xE2, CHR 0x80, CHR 0x82], [CHR 0xE2, CHR 0x80, CHR 0x83],
     [CHR 0xE2, CHR 0x80, CHR 0x84], [CHR 0xE2, CHR 0x80, CHR 0x85],
     [CHR 0xE2, CHR 0x80, CHR 0x86], [CHR 0xE2, CHR 0x80, CHR 0x87],
     [CHR 0xE2, CHR 0x80, CHR 0x88], [CHR 0xE2, CHR 0x80, CHR 0x89],
     [CHR 0xE2, CHR 0x80, CHR 0x8A], [CHR 0xE2, CHR 0x80, CHR 0xA8],
     [CHR 0xE2, CHR 0x80, CHR 0xA9], [CHR 0xE2, CHR 0x80, CHR 0xAF],
     [CHR 0xE2, CHR 0x81, CHR 0x9F], [CHR 0xE3, CHR 0x80, CHR 0x80]]"

text \<open>The length of the token of \<open>toks\<close> that \<open>s\<close> starts with, 0 when there is none.\<close>

definition token_len :: "string list \<Rightarrow> string \<Rightarrow> nat" where
  "token_len toks s =
     (case find (\<lambda>w. w \<noteq> [] \<and> take (length w) s = w) toks of
        None \<Rightarrow> 0
      | Some w \<Rightarrow> length w)"

function drop_tokens :: "string list \<Rightarrow> string \<Rightarrow> string" where
  "drop_tokens toks s =
     (if token_len toks s = 0 then s else drop_tokens toks (drop (token_len toks s) s))"
  by pat_completeness auto
termination
proof (relation "measure (\<lambda>(toks, s). length s)")
  show "wf (measure (\<lambda>(toks, s). length s))" by simp
next
  fix toks :: "string list" and s :: string
  assume pos: "token_len toks s \<noteq> 0"
  then obtain w where w: "w \<noteq> []" "take (length w) s = w"
    unfolding token_len_def
    by (auto split: option.splits dest: find_Some_iff [THEN iffD1])
  then have "s \<noteq> []" by auto
  with pos show "((toks, drop (token_len toks s) s), (toks, s)) \<in> measure (\<lambda>(toks, s). length s)"
    by simp
qed

definition lstrip :: "string \<Rightarrow> string" where
  "lstrip s = drop_tokens whitespace s"

definition rstrip :: "string \<Rightarrow> string" where
  "rstrip s = rev (drop_tokens (map rev whitespace) (rev s))"

definition strip :: "string \<Rightarrow> string" where
  "strip s = rstrip (lstrip s)"

text \<open>\<open>x.strip()\<close>: only a string has the method.\<close>

fun py_strip :: "json \<Rightarrow> error + string" where
  "py_strip (JStr s) = Inr (strip s)"
| "py_strip _ = Inl AttributeError"

text \<open>\<open>str(n)\<close> for a natural number.\<close>

fun str_nat :: "nat \<Rightarrow> string" where
  "str_nat n =
     (if n < 10 then [''0123456789'' ! n]
      else str_nat (n div 10) @ [''0123456789'' ! (n mod 10)])"

section \<open>Keyword optimisation (\<open>optimize_search_keyword\<close>)\<close>

text \<open>
  What \<open>requests.post\<close> gives back: it raises, or returns a response with a status
  code and a body that \<open>response.json()\<close> parses or rejects.
\<close>

record http_response =
  status_code :: nat
  json_body :: "error + json"

text \<open>
  The chain \<open>response.json().get("choices", [{}])[0].get("message", {}).get("content",
  "").strip()\<close>; every link may raise.
\<close>

definition response_content :: "http_response \<Rightarrow> error + string" where
  "response_content response =
     bind_err (json_body response) (\<lambda>result.
     bind_err (py_get result ''choices'' (JArr [JObj []])) (\<lambda>choices.
     bind_err (py_index0 choices) (\<lambda>choice.
     bind_err (py_get choice ''message'' (JObj [])) (\<lambda>message.
     bind_err (py_get message ''content'' (JStr [])) py_strip))))"

text \<open>The body of the \<open>try\<close> block, given the outcome of the HTTP call.\<close>

definition optimize_try_body :: "string \<Rightarrow> error + http_response \<Rightarrow> error + string" where
  "optimize_try_body original_keyword post =
     bind_err post (\<lambda>response.
       if status_code response \<noteq> 200 then Inr original_keyword
       else
         bind_err (response_content response) (\<lambda>optimized_keyword.
           if optimized_keyword = [] then Inr original_keyword
           else Inr optimized_keyword))"

definition optimize_search_keyword :: "string \<Rightarrow> error + http_response \<Rightarrow> error + string" where
  "optimize_search_keyword original_keyword post =
     try_except (optimize_try_body original_keyword post) (\<lambda>e. Inr original_keyword)"

text \<open>
  The ways the optimisation call fails: the request raises, the status is not 200, the
  body is no JSON or has no usable content (a link of the chain raises), or the content
  is empty after stripping.
\<close>

definition optimization_failed :: "error + http_response \<Rightarrow> bool" where
  "optimization_failed post =
     (case post of
        Inl e \<Rightarrow> True
      | Inr response \<Rightarrow>
          (if status_code response = 200
           then (case response_content response of
                   Inl e \<Rightarrow> True
                 | Inr optimized_keyword \<Rightarrow> optimized_keyword = [])
           else True))"

section \<open>The data model (\<open>database.py\<close>)\<close>

text \<open>
  Timestamps are natural numbers (seconds on the clock that \<open>datetime.utcnow\<close> reads);
  a calendar date is (year, month, day). Fields that several tables share
  (\<open>created_at\<close>, \<open>id\<close>, \<open>note_id\<close>, \<open>notes\<close>) carry the table's name. The column
  \<open>note_id\<close> of a ticket is a nullable foreign key.
\<close>

type_synonym date = "nat \<times> nat \<times> nat"

record Note =
  note_id :: string
  description :: string
  note_url :: string
  create_time :: nat
  note_created_at :: nat

record Ticket =
  ticket_id :: nat
  ticket_note_id :: "string option"
  is_ticket_resale :: bool
  event_name :: string
  city :: string
  event_date :: "date option"
  area :: string
  price :: string
  quantity :: string
  contact :: string
  ticket_notes :: string
  ticket_created_at :: nat

text \<open>
  \<open>WorkflowExecution\<close>. The column \<open>raw_response\<close> (always the empty object) is left
  out; \<open>run_count\<close> is nullable, and the code reads it as \<open>run_count or 0\<close>.
\<close>

record WorkflowExecution =
  we_id :: nat
  code :: nat
  cost :: nat
  msg :: string
  status :: string
  created_at :: nat
  message :: string
  is_scheduled :: bool
  schedule_interval :: nat
  last_run_at :: "nat option"
  next_run_at :: "nat option"
  run_count :: "nat option"

section \<open>Events and the event queue\<close>

text \<open>The \<open>ticket\<close> dictionary that a positive result and a \<open>ticket_update\<close> event carry.\<close>

record ticket_snapshot =
  ts_event_name :: string
  ts_city :: string
  ts_event_date :: "date option"
  ts_price :: string
  ts_area :: string
  ts_quantity :: string
  ts_contact :: string
  ts_notes :: string
  ts_note_url :: string

text \<open>
  The payloads that the code passes to \<open>notify_clients\<close>: task id, status and message;
  the same with run counter and last and next run (the first event of a timer run); a
  ticket with its task id; the deletion of a task.
\<close>

datatype event_data =
    TaskUpdate nat string string
  | TaskRunUpdate nat string string nat "nat option" "nat option"
  | TicketUpdate nat ticket_snapshot
  | TaskDeleted nat

record event =
  ev_type :: string
  ev_data :: event_data
  ev_timestamp :: nat

text \<open>What a subscriber's stream yields: an event or a heartbeat.\<close>

datatype frame = Data event | Heartbeat

section \<open>The feed, the classifier and the environment\<close>

text \<open>
  A feed of the search service: \<open>modelType\<close> and \<open>id\<close> may be missing (\<open>None\<close>);
  \<open>noteCard\<close> is a dictionary, empty when missing.
\<close>

record feed =
  modelType :: "string option"
  feed_id :: "string option"
  noteCard :: "(string \<times> string) list"

text \<open>The dictionary that \<open>analyze_ticket_content\<close> returns; a missing text field is
  the empty string, a missing date is \<open>None\<close>.\<close>

record ticket_info =
  ti_is_ticket_resale :: bool
  ti_event_name :: string
  ti_city :: string
  ti_event_date :: "string option"
  ti_area :: string
  ti_price :: string
  ti_quantity :: string
  ti_contact :: string
  ti_notes :: string

text \<open>
  The language model's answer to a classification request: none that can be used (the
  call raised, the status was not 200, no JSON object in the text), or an object.
\<close>

datatype classifier_reply = ClassifierFailed | ClassifierReplied ticket_info

definition not_a_ticket :: ticket_info where
  "not_a_ticket =
     \<lparr>ti_is_ticket_resale = False, ti_event_name = [], ti_city = [], ti_event_date = None,
      ti_area = [], ti_price = [], ti_quantity = [], ti_contact = [], ti_notes = []\<rparr>"

text \<open>Every failure of \<open>analyze_ticket_content\<close> returns \<open>{"is_ticket_resale": False}\<close>.\<close>

definition analyze_ticket_content :: "classifier_reply \<Rightarrow> ticket_info" where
  "analyze_ticket_content reply =
     (case reply of ClassifierFailed \<Rightarrow> not_a_ticket | ClassifierReplied info \<Rightarrow> info)"

text \<open>
  The collaborators, the library and the clock, as one call of the code sees them: the
  answer of the keyword optimisation request for a keyword, the result of
  \<open>search_feeds\<close> (with the connection) for a keyword, where \<open>Inl m\<close> is an exception
  \<open>e\<close> with \<open>str(e) = m\<close>, the classifier's reply to a text, the library's
  \<open>datetime.strptime(text, '%Y-%m-%d').date()\<close>, which returns a date or raises, and the
  readings of \<open>datetime.utcnow()\<close> and \<open>datetime.now()\<close> (one reading for the whole
  call).
\<close>

record env =
  keyword_api :: "string \<Rightarrow> error + http_response"
  search_feeds :: "string \<Rightarrow> string + feed list"
  classifier :: "string \<Rightarrow> classifier_reply"
  strptime :: "string \<Rightarrow> error + date"
  utcnow :: nat
  now :: nat

section \<open>The state of the process\<close>

text \<open>
  A key of the dictionary \<open>Monitor.task_jobs\<close>: Python compares an \<open>int\<close> key and a
  \<open>str\<close> key as different.
\<close>

datatype pykey = KInt nat | KStr string

text \<open>A job of the background scheduler: the arguments of the callback, the interval, and
  whether it is paused.\<close>

record job =
  job_task_id :: nat
  job_keyword :: string
  job_seconds :: nat
  job_paused :: bool

text \<open>
  The tables of the database as committed, the global event queue, the monitor and its
  scheduler. \<open>classified\<close> and \<open>searched\<close> log the texts sent to the classifier and
  the keywords sent to the feed service; \<open>delivered\<close> logs the frames each
  subscriber's stream has yielded.
\<close>

record system =
  note_table :: "Note list"
  ticket_table :: "Ticket list"
  task_table :: "WorkflowExecution list"
  event_queue :: "event list"
  task_jobs :: "(pykey \<times> string) list"
  jobs :: "(string \<times> job) list"
  classified :: "string list"
  searched :: "string list"
  delivered :: "(nat \<times> frame) list"

definition get_note :: "string \<Rightarrow> system \<Rightarrow> Note option" where
  "get_note nid s = find (\<lambda>n. note_id n = nid) (note_table s)"

definition get_ticket_by_note_id :: "string \<Rightarrow> system \<Rightarrow> Ticket option" where
  "get_ticket_by_note_id nid s = find (\<lambda>t. ticket_note_id t = Some nid) (ticket_table s)"

definition get_task :: "nat \<Rightarrow> system \<Rightarrow> WorkflowExecution option" where
  "get_task tid s = find (\<lambda>t. we_id t = tid) (task_table s)"

text \<open>Writing attributes of a loaded task and committing: the row with that id changes.\<close>

definition update_task ::
  "nat \<Rightarrow> (WorkflowExecution \<Rightarrow> WorkflowExecution) \<Rightarrow> system \<Rightarrow> system" where
  "update_task tid f s =
     s\<lparr>task_table := map (\<lambda>t. if we_id t = tid then f t else t) (task_table s)\<rparr>"

text \<open>The next value of an autoincrement primary key.\<close>

definition next_id :: "nat list \<Rightarrow> nat" where
  "next_id ids = Suc (foldr max ids 0)"

text \<open>
  A database session of a worker lives inside one \<open>with app.app_context()\<close> block:
  \<open>process_single_feed\<close> runs in the threads of the pool, which have no application
  context of their own; every block pushes one, and when the block is left the
  extension removes the session, which rolls back whatever was added or flushed and
  not committed. A session is therefore a value local to a block: the rows added to it.
\<close>

record session =
  added_notes :: "Note list"
  added_tickets :: "Ticket list"

definition new_session :: session where
  "new_session = \<lparr>added_notes = [], added_tickets = []\<rparr>"

text \<open>\<open>db.session.add(row)\<close>, with or without a \<open>flush\<close> after it.\<close>

definition session_add_note :: "Note \<Rightarrow> session \<Rightarrow> session" where
  "session_add_note n ss = ss\<lparr>added_notes := added_notes ss @ [n]\<rparr>"

definition session_add_ticket :: "Ticket \<Rightarrow> session \<Rightarrow> session" where
  "session_add_ticket t ss = ss\<lparr>added_tickets := added_tickets ss @ [t]\<rparr>"

text \<open>\<open>db.session.commit()\<close>: the rows added to the session become rows of the tables.\<close>

definition session_commit :: "session \<Rightarrow> system \<Rightarrow> system" where
  "session_commit ss s =
     s\<lparr>note_table := note_table s @ added_notes ss,
       ticket_table := ticket_table s @ added_tickets ss\<rparr>"

text \<open>Leaving the block without a commit, and \<open>db.session.rollback()\<close>: the rows added
  to the session are dropped and the tables stay as they were.\<close>

definition session_remove :: "session \<Rightarrow> system \<Rightarrow> system" where
  "session_remove ss s = s"

section \<open>The event bus (\<open>notify_clients\<close>, \<open>stream\<close>)\<close>

definition notify_clients :: "env \<Rightarrow> string \<Rightarrow> event_data \<Rightarrow> system \<Rightarrow> system" where
  "notify_clients e event_type data s =
     s\<lparr>event_queue := event_queue s @
         [\<lparr>ev_type = event_type, ev_data = data, ev_timestamp = now e\<rparr>]\<rparr>"

text \<open>
  One round of the loop of \<open>event_stream\<close> for the subscriber \<open>c\<close>:
  \<open>event_queue.get(timeout=30)\<close> takes the oldest message off the one global queue, and
  the generator yields it; when the queue stays empty, it yields a heartbeat.
\<close>

definition event_stream_next :: "nat \<Rightarrow> system \<Rightarrow> system" where
  "event_stream_next c s =
     (case event_queue s of
        [] \<Rightarrow> s\<lparr>delivered := delivered s @ [(c, Heartbeat)]\<rparr>
      | m # q \<Rightarrow> s\<lparr>event_queue := q, delivered := delivered s @ [(c, Data m)]\<rparr>)"

text \<open>The events that the stream of subscriber \<open>c\<close> has yielded, in order.\<close>

definition stream_events :: "nat \<Rightarrow> system \<Rightarrow> event list" where
  "stream_events c s =
     concat (map (\<lambda>d. case snd d of Data m \<Rightarrow> (if fst d = c then [m] else []) | Heartbeat \<Rightarrow> [])
       (delivered s))"

section \<open>The monitor and its scheduler (\<open>Monitor\<close>)\<close>

definition dict_set :: "'k \<Rightarrow> 'v \<Rightarrow> ('k \<times> 'v) list \<Rightarrow> ('k \<times> 'v) list" where
  "dict_set k v d = filter (\<lambda>p. fst p \<noteq> k) d @ [(k, v)]"

definition dict_del :: "'k \<Rightarrow> ('k \<times> 'v) list \<Rightarrow> ('k \<times> 'v) list" where
  "dict_del k d = filter (\<lambda>p. fst p \<noteq> k) d"

text \<open>\<open>job_id = f"task_{task_id}"\<close>\<close>

definition job_id_of :: "nat \<Rightarrow> string" where
  "job_id_of task_id = ''task_'' @ str_nat task_id"

text \<open>The scheduler's \<open>remove_job\<close>, \<open>pause_job\<close> and \<open>resume_job\<close> raise for a job id
  they do not know.\<close>

definition remove_job :: "string \<Rightarrow> system \<Rightarrow> error + system" where
  "remove_job jid s =
     (case map_of (jobs s) jid of
        None \<Rightarrow> Inl (Raised ''JobLookupError'')
      | Some j \<Rightarrow> Inr (s\<lparr>jobs := dict_del jid (jobs s)\<rparr>))"

definition set_job_paused :: "bool \<Rightarrow> string \<Rightarrow> system \<Rightarrow> error + system" where
  "set_job_paused p jid s =
     (case map_of (jobs s) jid of
        None \<Rightarrow> Inl (Raised ''JobLookupError'')
      | Some j \<Rightarrow> Inr (s\<lparr>jobs := map (\<lambda>q. if fst q = jid then (jid, j\<lparr>job_paused := p\<rparr>) else q) (jobs s)\<rparr>))"

definition pause_job :: "string \<Rightarrow> system \<Rightarrow> error + system" where
  "pause_job jid s = set_job_paused True jid s"

definition resume_job :: "string \<Rightarrow> system \<Rightarrow> error + system" where
  "resume_job jid s = set_job_paused False jid s"

text \<open>\<open>job_id in self.task_jobs\<close>: the string \<open>job_id\<close> is looked up among the keys.\<close>

definition job_id_in_task_jobs :: "string \<Rightarrow> system \<Rightarrow> bool" where
  "job_id_in_task_jobs jid s = (map_of (task_jobs s) (KStr jid) \<noteq> None)"

definition add_task_schedule :: "env \<Rightarrow> nat \<Rightarrow> string \<Rightarrow> nat \<Rightarrow> system \<Rightarrow> system" where
  "add_task_schedule e task_id keyword interval_seconds s =
     (let job_id = job_id_of task_id;
          s1 = (if job_id_in_task_jobs job_id s
                then (case remove_job job_id s of Inl x \<Rightarrow> s | Inr s' \<Rightarrow> s')
                else s);
          s2 = s1\<lparr>jobs := dict_set job_id
                  \<lparr>job_task_id = task_id, job_keyword = keyword,
                   job_seconds = interval_seconds, job_paused = False\<rparr> (jobs s1)\<rparr>;
          s3 = s2\<lparr>task_jobs := dict_set (KInt task_id) job_id (task_jobs s2)\<rparr>
      in update_task task_id (\<lambda>t. t\<lparr>next_run_at := Some (utcnow e + interval_seconds)\<rparr>) s3)"

definition pause_task_schedule :: "nat \<Rightarrow> system \<Rightarrow> bool \<times> system" where
  "pause_task_schedule task_id s =
     (let job_id = job_id_of task_id in
      if job_id_in_task_jobs job_id s then
        (case pause_job job_id s of
           Inl x \<Rightarrow> (False, s)
         | Inr s1 \<Rightarrow> (True, update_task task_id (\<lambda>t. t\<lparr>status := ''paused''\<rparr>) s1))
      else (False, s))"

definition resume_task_schedule :: "nat \<Rightarrow> system \<Rightarrow> bool \<times> system" where
  "resume_task_schedule task_id s =
     (let job_id = job_id_of task_id in
      if job_id_in_task_jobs job_id s then
        (case resume_job job_id s of
           Inl x \<Rightarrow> (False, s)
         | Inr s1 \<Rightarrow> (True, update_task task_id (\<lambda>t. t\<lparr>status := ''running''\<rparr>) s1))
      else (False, s))"

text \<open>\<open>del self.task_jobs[task_id]\<close> raises \<open>KeyError\<close> for a missing key, after the job
  has been removed; the handler returns \<open>False\<close>.\<close>

definition remove_task_schedule :: "nat \<Rightarrow> system \<Rightarrow> bool \<times> system" where
  "remove_task_schedule task_id s =
     (let job_id = job_id_of task_id in
      if job_id_in_task_jobs job_id s then
        (case remove_job job_id s of
           Inl x \<Rightarrow> (False, s)
         | Inr s1 \<Rightarrow>
             (case map_of (task_jobs s1) (KInt task_id) of
                None \<Rightarrow> (False, s1)
              | Some j \<Rightarrow>
                  (True,
                   update_task task_id (\<lambda>t. t\<lparr>is_scheduled := False, status := ''stopped''\<rparr>)
                     (s1\<lparr>task_jobs := dict_del (KInt task_id) (task_jobs s1)\<rparr>))))
      else (False, s))"

section \<open>Processing one feed (\<open>process_single_feed\<close>)\<close>

text \<open>The dictionary that \<open>process_single_feed\<close> returns; a key that is absent is
  \<open>None\<close>.\<close>

record result =
  success :: bool
  is_ticket :: "bool option"
  reason :: "string option"
  res_note_id :: "string option"
  res_ticket :: "ticket_snapshot option"
  res_error :: "error option"

definition failure_result :: "string \<Rightarrow> string option \<Rightarrow> result" where
  "failure_result why nid =
     \<lparr>success = False, is_ticket = None, reason = Some why, res_note_id = nid,
      res_ticket = None, res_error = None\<rparr>"

definition ticket_result :: "ticket_snapshot \<Rightarrow> result" where
  "ticket_result snap =
     \<lparr>success = True, is_ticket = Some True, reason = None, res_note_id = None,
      res_ticket = Some snap, res_error = None\<rparr>"

definition no_ticket_result :: "string \<Rightarrow> result" where
  "no_ticket_result nid =
     \<lparr>success = True, is_ticket = Some False, reason = None, res_note_id = Some nid,
      res_ticket = None, res_error = None\<rparr>"

definition error_result :: "error \<Rightarrow> result" where
  "error_result x =
     \<lparr>success = False, is_ticket = None, reason = Some ''error'', res_note_id = None,
      res_ticket = None, res_error = Some x\<rparr>"

definition dict_get :: "('k \<times> 'v) list \<Rightarrow> 'k \<Rightarrow> 'v \<Rightarrow> 'v" where
  "dict_get d k dflt = (case map_of d k of None \<Rightarrow> dflt | Some v \<Rightarrow> v)"

definition note_url_of :: "string \<Rightarrow> string" where
  "note_url_of fid = ''https://www.xiaohongshu.com/explore/'' @ fid"

text \<open>
  The first block under \<open>db_lock\<close>: look the note up; return the duplicate result when
  it is there; otherwise add the note to the block's session and flush. The block ends
  there, inside the lock, and its session is removed with the note in it.
\<close>

definition new_note :: "env \<Rightarrow> string \<Rightarrow> (string \<times> string) list \<Rightarrow> Note" where
  "new_note e fid note_card =
     \<lparr>note_id = fid, description = dict_get note_card ''displayTitle'' [],
      note_url = note_url_of fid, create_time = now e, note_created_at = utcnow e\<rparr>"

definition insert_note_section ::
  "env \<Rightarrow> string \<Rightarrow> (string \<times> string) list \<Rightarrow> system \<Rightarrow> result option \<times> system" where
  "insert_note_section e fid note_card s =
     (case get_note fid s of
        Some existing_note \<Rightarrow> (Some (failure_result ''already_exists'' (Some fid)), s)
      | None \<Rightarrow>
          (None,
           session_remove (session_add_note (new_note e fid note_card) new_session) s))"

text \<open>\<open>event_date\<close> of the new ticket: parsed, by the library, when the reply has a
  non-empty date.\<close>

definition parse_event_date :: "env \<Rightarrow> ticket_info \<Rightarrow> error + date option" where
  "parse_event_date e info =
     (case ti_event_date info of
        None \<Rightarrow> Inr None
      | Some text \<Rightarrow>
          if text = [] then Inr None
          else bind_err (strptime e text) (\<lambda>d. Inr (Some d)))"

definition snapshot_of :: "Ticket \<Rightarrow> string \<Rightarrow> ticket_snapshot" where
  "snapshot_of t url =
     \<lparr>ts_event_name = event_name t, ts_city = city t, ts_event_date = event_date t,
      ts_price = price t, ts_area = area t, ts_quantity = quantity t,
      ts_contact = contact t, ts_notes = ticket_notes t, ts_note_url = url\<rparr>"

text \<open>The row that \<open>Ticket(...)\<close> builds for the reply \<open>info\<close> and the parsed date.\<close>

definition new_ticket ::
  "env \<Rightarrow> string \<Rightarrow> ticket_info \<Rightarrow> date option \<Rightarrow> system \<Rightarrow> Ticket" where
  "new_ticket e fid info d s =
     \<lparr>ticket_id = next_id (map ticket_id (ticket_table s)),
      ticket_note_id = Some fid,
      is_ticket_resale = ti_is_ticket_resale info,
      event_name = ti_event_name info, city = ti_city info,
      event_date = d, area = ti_area info, price = ti_price info,
      quantity = ti_quantity info, contact = ti_contact info,
      ticket_notes = ti_notes info, ticket_created_at = utcnow e\<rparr>"

text \<open>
  The second block under \<open>db_lock\<close>, entered on a positive reply, with a session of its
  own: return when the note id has a ticket already; otherwise build the ticket
  (parsing the date may raise), add it and commit. The foreign key is not enforced, so
  the ticket is stored whether or not a note with that id exists.
\<close>

definition insert_ticket_section ::
  "env \<Rightarrow> string \<Rightarrow> ticket_info \<Rightarrow> system \<Rightarrow> error + (result \<times> system)" where
  "insert_ticket_section e fid info s =
     (case get_ticket_by_note_id fid s of
        Some existing_ticket \<Rightarrow> Inr (failure_result ''ticket_exists'' (Some fid), s)
      | None \<Rightarrow>
          bind_err (parse_event_date e info) (\<lambda>d.
            Inr (ticket_result (snapshot_of (new_ticket e fid info d s) (note_url_of fid)),
                 session_commit (session_add_ticket (new_ticket e fid info d s) new_session) s)))"

text \<open>
  The part of the function after the first block, for a note that was not found: the
  call of the classifier outside the lock, then the second block, or, on a negative
  reply, a block that commits a session to which nothing was added. The \<open>except\<close>
  clause of the function rolls back a session of its own and returns the error result.
\<close>

definition classify_and_store ::
  "env \<Rightarrow> string \<Rightarrow> (string \<times> string) list \<Rightarrow> system \<Rightarrow> result \<times> system" where
  "classify_and_store e fid note_card s1 =
     (let text = dict_get note_card ''displayTitle'' [];
          info = analyze_ticket_content (classifier e text);
          s2 = s1\<lparr>classified := classified s1 @ [text]\<rparr>
      in if ti_is_ticket_resale info then
           (case insert_ticket_section e fid info s2 of
              Inl x \<Rightarrow> (error_result x, session_remove new_session s2)
            | Inr finished \<Rightarrow> finished)
         else (no_ticket_result fid, session_commit new_session s2))"

text \<open>The whole function.\<close>

definition process_single_feed :: "env \<Rightarrow> feed \<Rightarrow> nat \<Rightarrow> system \<Rightarrow> result \<times> system" where
  "process_single_feed e f workflow_execution_id s =
     (if modelType f \<noteq> Some ''note'' then (failure_result ''not_note_type'' None, s)
      else
        (case feed_id f of
           None \<Rightarrow> (failure_result ''incomplete_data'' None, s)
         | Some fid \<Rightarrow>
             if fid = [] \<or> noteCard f = [] then (failure_result ''incomplete_data'' None, s)
             else
               (case insert_note_section e fid (noteCard f) s of
                  (Some duplicate, s1) \<Rightarrow> (duplicate, s1)
                | (None, s1) \<Rightarrow> classify_and_store e fid (noteCard f) s1)))"

text \<open>
  The posts that reach the classifier: those of kind \<open>note\<close> with an id and a note card
  whose note is not in the store; and the text that is classified.
\<close>

definition is_new_post :: "system \<Rightarrow> feed \<Rightarrow> bool" where
  "is_new_post s f =
     (modelType f = Some ''note'' \<and> noteCard f \<noteq> [] \<and>
      (case feed_id f of None \<Rightarrow> False | Some fid \<Rightarrow> fid \<noteq> [] \<and> get_note fid s = None))"

definition title_of :: "feed \<Rightarrow> string" where
  "title_of f = dict_get (noteCard f) ''displayTitle'' []"

section \<open>The texts of the status messages\<close>

text \<open>The literal parts of the messages, as the UTF-8 bytes of the source's strings.\<close>

definition txt_run_number_prefix :: string where
  "txt_run_number_prefix =
     [CHR 0xE7, CHR 0xAC, CHR 0xAC] @
     '' ''"

definition txt_scheduled_run_suffix :: string where
  "txt_scheduled_run_suffix =
     '' '' @
     [CHR 0xE6, CHR 0xAC, CHR 0xA1, CHR 0xE5, CHR 0xAE, CHR 0x9A,
      CHR 0xE6, CHR 0x97, CHR 0xB6, CHR 0xE6, CHR 0x89, CHR 0xA7,
      CHR 0xE8, CHR 0xA1, CHR 0x8C]"

definition txt_searching_xhs_prefix :: string where
  "txt_searching_xhs_prefix =
     [CHR 0xE6, CHR 0xAD, CHR 0xA3, CHR 0xE5, CHR 0x9C, CHR 0xA8,
      CHR 0xE6, CHR 0x90, CHR 0x9C, CHR 0xE7, CHR 0xB4, CHR 0xA2,
      CHR 0xE5, CHR 0xB0, CHR 0x8F, CHR 0xE7, CHR 0xBA, CHR 0xA2,
      CHR 0xE4, CHR 0xB9, CHR 0xA6, CHR 0xE5, CHR 0x86, CHR 0x85,
      CHR 0xE5, CHR 0xAE, CHR 0xB9, CHR 0xEF, CHR 0xBC, CHR 0x88]"

definition txt_searching_xhs_suffix :: string where
  "txt_searching_xhs_suffix =
     [CHR 0xEF, CHR 0xBC, CHR 0x89] @
     ''...''"

definition txt_found_prefix :: string where
  "txt_found_prefix =
     [CHR 0xE6, CHR 0x89, CHR 0xBE, CHR 0xE5, CHR 0x88, CHR 0xB0] @
     '' ''"

definition txt_found_suffix :: string where
  "txt_found_suffix =
     '' '' @
     [CHR 0xE6, CHR 0x9D, CHR 0xA1, CHR 0xE7, CHR 0xAC, CHR 0x94,
      CHR 0xE8, CHR 0xAE, CHR 0xB0, CHR 0xEF, CHR 0xBC, CHR 0x8C,
      CHR 0xE6, CHR 0xAD, CHR 0xA3, CHR 0xE5, CHR 0x9C, CHR 0xA8,
      CHR 0xE5, CHR 0x88, CHR 0x86, CHR 0xE6, CHR 0x9E, CHR 0x90] @
     ''...''"

definition txt_run_done_middle :: string where
  "txt_run_done_middle =
     '' '' @
     [CHR 0xE6, CHR 0xAC, CHR 0xA1, CHR 0xE6, CHR 0x89, CHR 0xA7,
      CHR 0xE8, CHR 0xA1, CHR 0x8C, CHR 0xE5, CHR 0xAE, CHR 0x8C,
      CHR 0xE6, CHR 0x88, CHR 0x90, CHR 0xEF, CHR 0xBC, CHR 0x8C,
      CHR 0xE5, CHR 0x8F, CHR 0x91, CHR 0xE7, CHR 0x8E, CHR 0xB0] @
     '' ''"

definition txt_run_done_suffix :: string where
  "txt_run_done_suffix =
     '' '' @
     [CHR 0xE6, CHR 0x9D, CHR 0xA1, CHR 0xE6, CHR 0x96, CHR 0xB0,
      CHR 0xE7, CHR 0xA5, CHR 0xA8, CHR 0xE5, CHR 0x8A, CHR 0xA1]"

definition txt_run_failed_prefix :: string where
  "txt_run_failed_prefix =
     [CHR 0xE6, CHR 0x89, CHR 0xA7, CHR 0xE8, CHR 0xA1, CHR 0x8C,
      CHR 0xE5, CHR 0xA4, CHR 0xB1, CHR 0xE8, CHR 0xB4, CHR 0xA5] @
     '': ''"

definition txt_optimized_to_prefix :: string where
  "txt_optimized_to_prefix =
     '' ('' @
     [CHR 0xE4, CHR 0xBC, CHR 0x98, CHR 0xE5, CHR 0x8C, CHR 0x96,
      CHR 0xE4, CHR 0xB8, CHR 0xBA] @
     '': ''"

definition txt_first_run :: string where
  "txt_first_run =
     [CHR 0xE9, CHR 0xA6, CHR 0x96, CHR 0xE6, CHR 0xAC, CHR 0xA1,
      CHR 0xE6, CHR 0x89, CHR 0xA7, CHR 0xE8, CHR 0xA1, CHR 0x8C,
      CHR 0xE4, CHR 0xB8, CHR 0xAD] @
     ''...''"

definition txt_searching_prefix :: string where
  "txt_searching_prefix =
     [CHR 0xE6, CHR 0xAD, CHR 0xA3, CHR 0xE5, CHR 0x9C, CHR 0xA8,
      CHR 0xE6, CHR 0x90, CHR 0x9C, CHR 0xE7, CHR 0xB4, CHR 0xA2,
      CHR 0xEF, CHR 0xBC, CHR 0x9A]"

definition txt_optimized_from_prefix :: string where
  "txt_optimized_from_prefix =
     '' ('' @
     [CHR 0xE4, CHR 0xBC, CHR 0x98, CHR 0xE5, CHR 0x8C, CHR 0x96,
      CHR 0xE8, CHR 0x87, CHR 0xAA] @
     '': ''"

definition txt_mcp_failed_prefix :: string where
  "txt_mcp_failed_prefix =
     ''MCP '' @
     [CHR 0xE6, CHR 0x9C, CHR 0x8D, CHR 0xE5, CHR 0x8A, CHR 0xA1,
      CHR 0xE8, CHR 0xB0, CHR 0x83, CHR 0xE7, CHR 0x94, CHR 0xA8,
      CHR 0xE5, CHR 0xA4, CHR 0xB1, CHR 0xE8, CHR 0xB4, CHR 0xA5] @
     '': ''"

definition txt_no_data :: string where
  "txt_no_data =
     [CHR 0xE6, CHR 0x9C, CHR 0xAA, CHR 0xE6, CHR 0x89, CHR 0xBE,
      CHR 0xE5, CHR 0x88, CHR 0xB0, CHR 0xE7, CHR 0x9B, CHR 0xB8,
      CHR 0xE5, CHR 0x85, CHR 0xB3, CHR 0xE6, CHR 0x95, CHR 0xB0,
      CHR 0xE6, CHR 0x8D, CHR 0xAE]"

definition txt_processed_prefix :: string where
  "txt_processed_prefix =
     [CHR 0xE5, CHR 0xB7, CHR 0xB2, CHR 0xE5, CHR 0xA4, CHR 0x84,
      CHR 0xE7, CHR 0x90, CHR 0x86] @
     '' ''"

definition txt_processed_middle :: string where
  "txt_processed_middle =
     '' '' @
     [CHR 0xE6, CHR 0x9D, CHR 0xA1, CHR 0xE6, CHR 0x95, CHR 0xB0,
      CHR 0xE6, CHR 0x8D, CHR 0xAE, CHR 0xEF, CHR 0xBC, CHR 0x8C,
      CHR 0xE5, CHR 0x8F, CHR 0x91, CHR 0xE7, CHR 0x8E, CHR 0xB0] @
     '' ''"

definition txt_processed_suffix :: string where
  "txt_processed_suffix =
     '' '' @
     [CHR 0xE6, CHR 0x9D, CHR 0xA1, CHR 0xE7, CHR 0xA5, CHR 0xA8,
      CHR 0xE5, CHR 0x8A, CHR 0xA1]"

definition txt_search_done_prefix :: string where
  "txt_search_done_prefix =
     [CHR 0xE6, CHR 0x90, CHR 0x9C, CHR 0xE7, CHR 0xB4, CHR 0xA2,
      CHR 0xE5, CHR 0xAE, CHR 0x8C, CHR 0xE6, CHR 0x88, CHR 0x90,
      CHR 0xEF, CHR 0xBC, CHR 0x8C, CHR 0xE5, CHR 0x85, CHR 0xB1,
      CHR 0xE5, CHR 0xA4, CHR 0x84, CHR 0xE7, CHR 0x90, CHR 0x86] @
     '' ''"

definition txt_search_done_suffix :: string where
  "txt_search_done_suffix =
     '' '' @
     [CHR 0xE6, CHR 0x9D, CHR 0xA1, CHR 0xE7, CHR 0xA5, CHR 0xA8,
      CHR 0xE5, CHR 0x8A, CHR 0xA1, CHR 0xE4, CHR 0xBF, CHR 0xA1,
      CHR 0xE6, CHR 0x81, CHR 0xAF]"

definition scheduled_run_message :: "nat \<Rightarrow> string" where
  "scheduled_run_message n = txt_run_number_prefix @ str_nat n @ txt_scheduled_run_suffix"

definition searching_xhs_message :: "string \<Rightarrow> string" where
  "searching_xhs_message k = txt_searching_xhs_prefix @ k @ txt_searching_xhs_suffix"

definition found_message :: "nat \<Rightarrow> string" where
  "found_message n = txt_found_prefix @ str_nat n @ txt_found_suffix"

definition run_done_message :: "nat \<Rightarrow> nat \<Rightarrow> string" where
  "run_done_message n k =
     txt_run_number_prefix @ str_nat n @ txt_run_done_middle @ str_nat k @ txt_run_done_suffix"

definition run_failed_message :: "string \<Rightarrow> string" where
  "run_failed_message err = txt_run_failed_prefix @ err"

definition task_msg :: "string \<Rightarrow> string \<Rightarrow> string" where
  "task_msg keyword optimized_keyword =
     (if keyword \<noteq> optimized_keyword
      then keyword @ txt_optimized_to_prefix @ optimized_keyword @ '')''
      else keyword)"

definition searching_message :: "string \<Rightarrow> string \<Rightarrow> string" where
  "searching_message keyword optimized_keyword =
     txt_searching_prefix @ optimized_keyword @
     (if keyword \<noteq> optimized_keyword then txt_optimized_from_prefix @ keyword @ '')'' else [])"

definition mcp_failed_message :: "string \<Rightarrow> string" where
  "mcp_failed_message err = txt_mcp_failed_prefix @ err"

definition progress_message :: "nat \<Rightarrow> nat \<Rightarrow> nat \<Rightarrow> string" where
  "progress_message processed total_notes k =
     txt_processed_prefix @ str_nat processed @ ''/'' @ str_nat total_notes @
     txt_processed_middle @ str_nat k @ txt_processed_suffix"

definition search_done_message :: "nat \<Rightarrow> nat \<Rightarrow> string" where
  "search_done_message total_notes k =
     txt_search_done_prefix @ str_nat total_notes @ txt_processed_middle @ str_nat k @
     txt_search_done_suffix"

section \<open>A run started by the timer (\<open>execute_scheduled_task\<close>)\<close>

text \<open>
  The pool of five workers is modelled by one of its schedules: the feeds are processed
  one after the other in the order of submission, and the result of a feed is handled
  before the next feed starts.
\<close>

fun scheduled_loop :: "env \<Rightarrow> nat \<Rightarrow> feed list \<Rightarrow> nat \<Rightarrow> system \<Rightarrow> nat \<times> system" where
  "scheduled_loop e task_id [] ticket_count s = (ticket_count, s)"
| "scheduled_loop e task_id (f # fs) ticket_count s =
     (case process_single_feed e f task_id s of
        (r, s1) \<Rightarrow>
          scheduled_loop e task_id fs
            (if success r \<and> is_ticket r = Some True then ticket_count + 1 else ticket_count) s1)"

text \<open>
  \<open>str(e)\<close> in a handler that reports the exception. The message of a built-in
  exception is not modelled (its class name stands for it); the only function that
  raises one, \<open>optimize_search_keyword\<close>, catches it itself.
\<close>

fun str_error :: "error \<Rightarrow> string" where
  "str_error (Raised m) = m"
| "str_error AttributeError = ''AttributeError''"
| "str_error IndexError = ''IndexError''"
| "str_error KeyError = ''KeyError''"
| "str_error TypeError = ''TypeError''"
| "str_error ValueError = ''ValueError''"

text \<open>The \<open>except\<close> clause of the timer's run: the message goes to the task and to the
  clients, with the status \<open>running\<close>.\<close>

definition scheduled_failure :: "env \<Rightarrow> nat \<Rightarrow> string \<Rightarrow> system \<Rightarrow> system" where
  "scheduled_failure e task_id err s =
     notify_clients e ''task_update''
       (TaskUpdate task_id ''running'' (run_failed_message err))
       (update_task task_id (\<lambda>t. t\<lparr>message := run_failed_message err\<rparr>) s)"

text \<open>The \<open>try\<close> block, after the run has been announced; \<open>n\<close> is the new run
  counter.\<close>

definition scheduled_search :: "env \<Rightarrow> nat \<Rightarrow> string \<Rightarrow> nat \<Rightarrow> system \<Rightarrow> system" where
  "scheduled_search e task_id keyword n s =
     (case optimize_search_keyword keyword (keyword_api e keyword) of
        Inl x \<Rightarrow> scheduled_failure e task_id (str_error x) s
      | Inr optimized_keyword \<Rightarrow>
          (let s1 = notify_clients e ''task_update''
                      (TaskUpdate task_id ''running'' (searching_xhs_message optimized_keyword)) s;
               s2 = s1\<lparr>searched := searched s1 @ [optimized_keyword]\<rparr>
           in case search_feeds e optimized_keyword of
                Inl err \<Rightarrow> scheduled_failure e task_id err s2
              | Inr feeds \<Rightarrow>
                  (let s3 = notify_clients e ''task_update''
                              (TaskUpdate task_id ''running'' (found_message (length feeds))) s2
                   in case scheduled_loop e task_id feeds 0 s3 of
                        (ticket_count, s4) \<Rightarrow>
                          notify_clients e ''task_update''
                            (TaskUpdate task_id ''running'' (run_done_message n ticket_count))
                            (update_task task_id
                               (\<lambda>t. t\<lparr>message := run_done_message n ticket_count\<rparr>) s4))))"

definition execute_scheduled_task :: "env \<Rightarrow> nat \<Rightarrow> string \<Rightarrow> system \<Rightarrow> system" where
  "execute_scheduled_task e task_id keyword s =
     (case get_task task_id s of
        None \<Rightarrow> s
      | Some task \<Rightarrow>
          if status task \<notin> set [''running'', ''paused''] then s
          else if status task = ''paused'' then s
          else
            (let n = (case run_count task of None \<Rightarrow> 0 | Some c \<Rightarrow> c) + 1;
                 s1 = update_task task_id
                        (\<lambda>t. t\<lparr>last_run_at := Some (utcnow e),
                                run_count := Some n,
                                next_run_at := Some (utcnow e + schedule_interval task),
                                message := scheduled_run_message n\<rparr>) s;
                 s2 = notify_clients e ''task_update''
                        (TaskRunUpdate task_id ''running'' (scheduled_run_message n) n
                           (Some (utcnow e)) (Some (utcnow e + schedule_interval task))) s1
             in scheduled_search e task_id keyword n s2))"

section \<open>A run started by the creation of a task (\<open>execute_search_task\<close>)\<close>

text \<open>The body of the loop over the completed futures, after \<open>processed_notes\<close> has been
  counted up. A positive result without the key \<open>ticket\<close> raises after the ticket has
  been counted, and the loop continues.\<close>

definition handle_search_result ::
  "env \<Rightarrow> nat \<Rightarrow> nat \<Rightarrow> nat \<Rightarrow> nat \<Rightarrow> result \<Rightarrow> system \<Rightarrow> nat \<times> system" where
  "handle_search_result e task_id total_notes processed_notes ticket_count r s =
     (let progress = (\<lambda>k s'.
            (k, if processed_notes mod 5 = 0 \<or> processed_notes = total_notes
                then notify_clients e ''task_update''
                       (TaskUpdate task_id ''running''
                          (progress_message processed_notes total_notes k)) s'
                else s'))
      in if success r \<and> is_ticket r = Some True then
           (case res_ticket r of
              None \<Rightarrow> (ticket_count + 1, s)
            | Some snap \<Rightarrow>
                progress (ticket_count + 1)
                  (notify_clients e ''ticket_update'' (TicketUpdate task_id snap) s))
         else progress ticket_count s)"

fun search_loop ::
  "env \<Rightarrow> nat \<Rightarrow> nat \<Rightarrow> feed list \<Rightarrow> nat \<Rightarrow> nat \<Rightarrow> system \<Rightarrow> nat \<times> system" where
  "search_loop e task_id total_notes [] processed_notes ticket_count s = (ticket_count, s)"
| "search_loop e task_id total_notes (f # fs) processed_notes ticket_count s =
     (case process_single_feed e f task_id s of
        (r, s1) \<Rightarrow>
          (case handle_search_result e task_id total_notes (Suc processed_notes)
                  ticket_count r s1 of
             (ticket_count1, s2) \<Rightarrow>
               search_loop e task_id total_notes fs (Suc processed_notes) ticket_count1 s2))"

definition new_task :: "env \<Rightarrow> nat \<Rightarrow> string \<Rightarrow> string \<Rightarrow> WorkflowExecution" where
  "new_task e tid keyword optimized_keyword =
     \<lparr>we_id = tid, code = 200, cost = 0, msg = task_msg keyword optimized_keyword,
      status = ''running'', created_at = utcnow e, message = txt_first_run,
      is_scheduled = True, schedule_interval = 60, last_run_at = None,
      next_run_at = None, run_count = Some 0\<rparr>"

definition execute_search_task :: "env \<Rightarrow> string \<Rightarrow> system \<Rightarrow> bool \<times> system" where
  "execute_search_task e keyword s =
     (case optimize_search_keyword keyword (keyword_api e keyword) of
        Inl x \<Rightarrow> (False, s)
      | Inr optimized_keyword \<Rightarrow>
          (let task_id = next_id (map we_id (task_table s));
               s1 = s\<lparr>task_table := task_table s @ [new_task e task_id keyword optimized_keyword]\<rparr>;
               s2 = add_task_schedule e task_id keyword 60 s1;
               s3 = notify_clients e ''task_update''
                      (TaskUpdate task_id ''running'' (searching_message keyword optimized_keyword)) s2;
               s4 = s3\<lparr>searched := searched s3 @ [optimized_keyword]\<rparr>
           in case search_feeds e optimized_keyword of
                Inl err \<Rightarrow>
                  (False,
                   notify_clients e ''task_update''
                     (TaskUpdate task_id ''failed'' (mcp_failed_message err))
                     (update_task task_id (\<lambda>t. t\<lparr>status := ''failed'', code := 500\<rparr>) s4))
              | Inr feeds \<Rightarrow>
                  if feeds = [] then
                    (False,
                     notify_clients e ''task_update''
                       (TaskUpdate task_id ''completed'' txt_no_data)
                       (update_task task_id (\<lambda>t. t\<lparr>status := ''completed''\<rparr>) s4))
                  else
                    (case search_loop e task_id (length feeds) feeds 0 0 s4 of
                       (ticket_count, s5) \<Rightarrow>
                         (True,
                          notify_clients e ''task_update''
                            (TaskUpdate task_id ''completed''
                               (search_done_message (length feeds) ticket_count))
                            (update_task task_id (\<lambda>t. t\<lparr>status := ''completed''\<rparr>) s5)))))"

section \<open>Deleting a task (\<open>delete_task\<close>)\<close>

text \<open>
  The tickets that the query \<open>Ticket.query.join(Note).filter(Ticket.created_at >=
  task_created_at)\<close> selects: those created at or after the task whose note exists.
\<close>

definition selected_for_delete :: "WorkflowExecution \<Rightarrow> system \<Rightarrow> Ticket \<Rightarrow> bool" where
  "selected_for_delete task s t =
     (created_at task \<le> ticket_created_at t \<and>
      (case ticket_note_id t of None \<Rightarrow> False | Some nid \<Rightarrow> get_note nid s \<noteq> None))"

text \<open>
  The route returns the HTTP status: 200, or 404 when the task does not exist. It first
  asks the monitor to remove the timer. It deletes the selected tickets and the notes
  they refer to. The relationship \<open>Note.tickets\<close> has no delete cascade: a ticket of
  a deleted note that is not deleted itself keeps its row and loses its \<open>note_id\<close>.
  The status \<open>stopped\<close> that the route writes to a running task just before deleting
  the row is never stored and is left out.
\<close>

definition delete_task :: "env \<Rightarrow> nat \<Rightarrow> system \<Rightarrow> nat \<times> system" where
  "delete_task e task_id s =
     (let s1 = snd (remove_task_schedule task_id s) in
      case get_task task_id s1 of
        None \<Rightarrow> (404, s1)
      | Some task \<Rightarrow>
          (let tickets = filter (selected_for_delete task s1) (ticket_table s1);
               note_ids = set (map ticket_note_id tickets);
               s2 = s1\<lparr>ticket_table :=
                         map (\<lambda>t. if ticket_note_id t \<in> note_ids
                                  then t\<lparr>ticket_note_id := None\<rparr> else t)
                           (filter (\<lambda>t. \<not> selected_for_delete task s1 t) (ticket_table s1)),
                       note_table := filter (\<lambda>n. Some (note_id n) \<notin> note_ids) (note_table s1),
                       task_table := filter (\<lambda>t. we_id t \<noteq> task_id) (task_table s1)\<rparr>
           in (200, notify_clients e ''task_update'' (TaskDeleted task_id) s2)))"

section \<open>Interleavings of the workers\<close>

text \<open>
  What one thread does while it holds \<open>db_lock\<close> is atomic for the others, and no
  session outlives the block that made it. A schedule is a list of such steps, each
  with the environment it runs in: the first block of \<open>process_single_feed\<close>, its
  second block with the handler of the exception it may raise, the commit of the
  negative branch, a whole call of \<open>process_single_feed\<close>, and the deletion of a task.
\<close>

datatype action =
    InsertNote string "(string \<times> string) list"
  | InsertTicket string ticket_info
  | CommitNothing
  | ProcessPost feed nat
  | DeleteTask nat

fun step :: "env \<Rightarrow> action \<Rightarrow> system \<Rightarrow> system" where
  "step e (InsertNote fid note_card) s = snd (insert_note_section e fid note_card s)"
| "step e (InsertTicket fid info) s =
     (case insert_ticket_section e fid info s of
        Inl x \<Rightarrow> session_remove new_session s
      | Inr finished \<Rightarrow> snd finished)"
| "step e CommitNothing s = session_commit new_session s"
| "step e (ProcessPost f task_id) s = snd (process_single_feed e f task_id s)"
| "step e (DeleteTask task_id) s = snd (delete_task e task_id s)"

fun run_schedule :: "(env \<times> action) list \<Rightarrow> system \<Rightarrow> system" where
  "run_schedule [] s = s"
| "run_schedule (ea # rest) s = run_schedule rest (step (fst ea) (snd ea) s)"

text \<open>The number of notes with a given identity, and of tickets that refer to it.\<close>

definition notes_with_id :: "string \<Rightarrow> system \<Rightarrow> nat" where
  "notes_with_id nid s = length (filter (\<lambda>n. note_id n = nid) (note_table s))"

definition tickets_with_note_id :: "string \<Rightarrow> system \<Rightarrow> nat" where
  "tickets_with_note_id nid s =
     length (filter (\<lambda>t. ticket_note_id t = Some nid) (ticket_table s))"

text \<open>A store in which no identity has two notes or two tickets, such as the empty one.\<close>

definition one_per_identity :: "system \<Rightarrow> bool" where
  "one_per_identity s =
     (\<forall>nid. notes_with_id nid s \<le> 1 \<and> tickets_with_note_id nid s \<le> 1)"


section \<open>Concrete inputs\<close>

definition empty_system :: system where
  "empty_system =
     \<lparr>note_table = [], ticket_table = [], task_table = [],
      event_queue = [], task_jobs = [], jobs = [], classified = [], searched = [],
      delivered = []\<rparr>"

text \<open>Collaborators: an optimisation service that times out, a feed service that times
  out, one that finds nothing, one that finds the post \<open>n1\<close>, and classifiers that say no,
  yes, and yes with a date that is none. The date parser of the examples knows the date
  \<open>2025-03-01\<close> and raises for \<open>next friday\<close>, as \<open>datetime.strptime\<close> does; the
  examples give it no other text.\<close>

definition example_strptime :: "string \<Rightarrow> error + date" where
  "example_strptime text = (if text = ''2025-03-01'' then Inr (2025, 3, 1) else Inl ValueError)"

definition api_down :: "string \<Rightarrow> error + http_response" where
  "api_down k = Inl (Raised ''timeout'')"

definition feeds_timeout :: "string \<Rightarrow> string + feed list" where
  "feeds_timeout k = Inl ''timed out''"

definition feeds_none :: "string \<Rightarrow> string + feed list" where
  "feeds_none k = Inr []"

definition post_n1 :: feed where
  "post_n1 = \<lparr>modelType = Some ''note'', feed_id = Some ''n1'',
              noteCard = [(''displayTitle'', ''two tickets for sale'')]\<rparr>"

definition feeds_n1 :: "string \<Rightarrow> string + feed list" where
  "feeds_n1 k = Inr [post_n1]"

definition resale_info :: ticket_info where
  "resale_info =
     \<lparr>ti_is_ticket_resale = True, ti_event_name = ''ArtistX Live'', ti_city = ''Beijing'',
      ti_event_date = Some ''2025-03-01'', ti_area = ''A'', ti_price = ''500'',
      ti_quantity = ''2'', ti_contact = ''dm'', ti_notes = []\<rparr>"

definition says_no :: "string \<Rightarrow> classifier_reply" where
  "says_no text = ClassifierFailed"

definition says_yes :: "string \<Rightarrow> classifier_reply" where
  "says_yes text = ClassifierReplied resale_info"


definition env_of :: "(string \<Rightarrow> string + feed list) \<Rightarrow> (string \<Rightarrow> classifier_reply) \<Rightarrow> env" where
  "env_of fs cl =
     \<lparr>keyword_api = api_down, search_feeds = fs, classifier = cl,
      strptime = example_strptime, utcnow = 100, now = 108\<rparr>"

definition task7 :: WorkflowExecution where
  "task7 =
     \<lparr>we_id = 7, code = 200, cost = 0, msg = ''jay'', status = ''running'', created_at = 50,
      message = [], is_scheduled = True, schedule_interval = 60, last_run_at = None,
      next_run_at = None, run_count = Some 0\<rparr>"

definition system_with_task7 :: system where
  "system_with_task7 = empty_system\<lparr>task_table := [task7]\<rparr>"

text \<open>Workers that meet the same post: one runs the first block, another a whole call,
  the first stores the ticket, and two more come after.\<close>

definition racing_workers :: "(env \<times> action) list" where
  "racing_workers =
     [(env_of feeds_n1 says_yes, InsertNote ''n1'' (noteCard post_n1)),
      (env_of feeds_n1 says_yes, ProcessPost post_n1 7),
      (env_of feeds_n1 says_yes, InsertTicket ''n1'' resale_info),
      (env_of feeds_n1 says_yes, ProcessPost post_n1 7),
      (env_of feeds_n1 says_yes, InsertTicket ''n1'' resale_info)]"

text \<open>A timer registered for task 7 by \<open>add_task_schedule\<close>, in a store without a record
  of task 7.\<close>

definition registered_without_record :: system where
  "registered_without_record =
     add_task_schedule (env_of feeds_none says_no) 7 ''jay'' 60 empty_system"

text \<open>One event is published, then subscriber 1 and subscriber 2 each wait on their
  stream.\<close>

definition paused_event :: event where
  "paused_event =
     \<lparr>ev_type = ''task_update'', ev_data = TaskUpdate 7 ''paused'' ''paused by the user'',
      ev_timestamp = 108\<rparr>"

definition one_event_two_subscribers :: system where
  "one_event_two_subscribers =
     event_stream_next 2 (event_stream_next 1
       (notify_clients (env_of feeds_none says_no) ''task_update''
          (TaskUpdate 7 ''paused'' ''paused by the user'') empty_system))"

text \<open>
  Rows written to the tables directly, as the schema of \<open>database.py\<close> allows them
  (nothing in it keeps a note from having two tickets): the note of the post \<open>n1\<close>,
  stored at a given time, and a ticket for it.
\<close>

definition note_row :: "nat \<Rightarrow> Note" where
  "note_row t =
     \<lparr>note_id = ''n1'', description = ''two tickets for sale'',
      note_url = note_url_of ''n1'', create_time = t, note_created_at = t\<rparr>"




definition store_with_plain_post :: system where
  "store_with_plain_post = system_with_task7\<lparr>note_table := [note_row 60]\<rparr>"



text \<open>The store in which task 7 is paused.\<close>

definition system_with_paused7 :: system where
  "system_with_paused7 = empty_system\<lparr>task_table := [task7\<lparr>status := ''paused''\<rparr>]\<rparr>"


section \<open>What each operation leaves unchanged\<close>

lemma notify_clients_frame [simp]:
  "note_table (notify_clients e ty d s) = note_table s"
  "ticket_table (notify_clients e ty d s) = ticket_table s"
  "task_table (notify_clients e ty d s) = task_table s"
  "task_jobs (notify_clients e ty d s) = task_jobs s"
  "jobs (notify_clients e ty d s) = jobs s"
  "classified (notify_clients e ty d s) = classified s"
  "searched (notify_clients e ty d s) = searched s"
  "delivered (notify_clients e ty d s) = delivered s"
  "event_queue (notify_clients e ty d s) =
     event_queue s @ [\<lparr>ev_type = ty, ev_data = d, ev_timestamp = now e\<rparr>]"
  by (simp_all add: notify_clients_def)

lemma update_task_frame [simp]:
  "note_table (update_task tid f s) = note_table s"
  "ticket_table (update_task tid f s) = ticket_table s"
  "event_queue (update_task tid f s) = event_queue s"
  "task_jobs (update_task tid f s) = task_jobs s"
  "jobs (update_task tid f s) = jobs s"
  "classified (update_task tid f s) = classified s"
  "searched (update_task tid f s) = searched s"
  "delivered (update_task tid f s) = delivered s"
  "task_table (update_task tid f s) = map (\<lambda>t. if we_id t = tid then f t else t) (task_table s)"
  by (simp_all add: update_task_def)

lemma session_commit_frame [simp]:
  "task_table (session_commit ss s) = task_table s"
  "event_queue (session_commit ss s) = event_queue s"
  "task_jobs (session_commit ss s) = task_jobs s"
  "jobs (session_commit ss s) = jobs s"
  "classified (session_commit ss s) = classified s"
  "searched (session_commit ss s) = searched s"
  "delivered (session_commit ss s) = delivered s"
  "note_table (session_commit ss s) = note_table s @ added_notes ss"
  "ticket_table (session_commit ss s) = ticket_table s @ added_tickets ss"
  by (simp_all add: session_commit_def)

lemma session_commit_nothing [simp]: "session_commit new_session s = s"
  by (simp add: session_commit_def new_session_def)

lemma session_add_rows [simp]:
  "added_notes (session_add_ticket t ss) = added_notes ss"
  "added_tickets (session_add_ticket t ss) = added_tickets ss @ [t]"
  "added_notes (session_add_note n ss) = added_notes ss @ [n]"
  "added_tickets (session_add_note n ss) = added_tickets ss"
  "added_notes new_session = []"
  "added_tickets new_session = []"
  by (simp_all add: session_add_ticket_def session_add_note_def new_session_def)

lemma session_remove_same [simp]: "session_remove ss s = s"
  by (simp add: session_remove_def)

lemma insert_note_section_state [simp]: "snd (insert_note_section e fid c s) = s"
  by (simp add: insert_note_section_def split: option.splits)

lemma insert_ticket_section_frame:
  assumes "insert_ticket_section e fid info s = Inr (r, s')"
  shows "note_table s' = note_table s" "task_table s' = task_table s"
    "event_queue s' = event_queue s" "task_jobs s' = task_jobs s" "jobs s' = jobs s"
    "classified s' = classified s" "searched s' = searched s" "delivered s' = delivered s"
  using assms
  by (auto simp: insert_ticket_section_def bind_err_def split: option.splits sum.splits)

lemma classify_and_store_frame:
  "note_table (snd (classify_and_store e fid c s)) = note_table s"
  "task_table (snd (classify_and_store e fid c s)) = task_table s"
  "event_queue (snd (classify_and_store e fid c s)) = event_queue s"
  "task_jobs (snd (classify_and_store e fid c s)) = task_jobs s"
  "jobs (snd (classify_and_store e fid c s)) = jobs s"
  "searched (snd (classify_and_store e fid c s)) = searched s"
  "delivered (snd (classify_and_store e fid c s)) = delivered s"
  by (auto simp: classify_and_store_def Let_def dest: insert_ticket_section_frame
        split: sum.splits)

lemma process_single_feed_state:
  "snd (process_single_feed e f tid s) = s \<or>
   (\<exists>fid. snd (process_single_feed e f tid s) = snd (classify_and_store e fid (noteCard f) s))"
proof (cases "feed_id f")
  case None
  then show ?thesis by (simp add: process_single_feed_def)
next
  case (Some fid)
  obtain r1 s1 where ins: "insert_note_section e fid (noteCard f) s = (r1, s1)"
    by (cases "insert_note_section e fid (noteCard f) s")
  then have s1: "s1 = s" using insert_note_section_state [of e fid "noteCard f" s] by simp
  have "snd (process_single_feed e f tid s) = s \<or>
        snd (process_single_feed e f tid s) = snd (classify_and_store e fid (noteCard f) s)"
    using Some ins s1 by (cases r1) (simp_all add: process_single_feed_def)
  then show ?thesis by blast
qed

lemma process_single_feed_frame:
  "note_table (snd (process_single_feed e f tid s)) = note_table s"
  "task_table (snd (process_single_feed e f tid s)) = task_table s"
  "event_queue (snd (process_single_feed e f tid s)) = event_queue s"
  "task_jobs (snd (process_single_feed e f tid s)) = task_jobs s"
  "jobs (snd (process_single_feed e f tid s)) = jobs s"
  "searched (snd (process_single_feed e f tid s)) = searched s"
  "delivered (snd (process_single_feed e f tid s)) = delivered s"
  using process_single_feed_state [of e f tid s]
  by (auto simp: classify_and_store_frame)

section \<open>One note and one ticket for an identity\<close>

lemma get_note_None_iff: "get_note nid s = None \<longleftrightarrow> nid \<notin> note_id ` set (note_table s)"
  by (auto simp: get_note_def find_None_iff)

lemma no_ticket_counts_zero:
  "get_ticket_by_note_id nid s = None \<Longrightarrow> tickets_with_note_id nid s = 0"
  by (auto simp: get_ticket_by_note_id_def tickets_with_note_id_def find_None_iff filter_empty_conv)

lemma length_filter_filter_le: "length (filter Q (filter P xs)) \<le> length (filter Q xs)"
  by (induction xs) auto

lemma count_after_clear:
  "length (filter (\<lambda>t. ticket_note_id t = Some nid)
      (map (\<lambda>t. if P t then t\<lparr>ticket_note_id := None\<rparr> else t) xs)) \<le>
   length (filter (\<lambda>t. ticket_note_id t = Some nid) xs)"
  by (induction xs) auto

lemma insert_ticket_section_one:
  assumes "one_per_identity s" "insert_ticket_section e fid info s = Inr (r, s')"
  shows "one_per_identity s'"
proof (cases "get_ticket_by_note_id fid s")
  case (Some t)
  with assms show ?thesis by (simp add: insert_ticket_section_def)
next
  case None
  then have zero: "tickets_with_note_id fid s = 0" by (rule no_ticket_counts_zero)
  from assms(2) None obtain d where
    s': "s' = session_commit (session_add_ticket (new_ticket e fid info d s) new_session) s"
    by (auto simp: insert_ticket_section_def bind_err_def split: sum.splits)
  have same_notes: "notes_with_id nid s' = notes_with_id nid s" for nid
    by (simp add: s' notes_with_id_def)
  have tickets: "tickets_with_note_id nid s' =
      tickets_with_note_id nid s + (if nid = fid then 1 else 0)" for nid
    by (auto simp: s' tickets_with_note_id_def new_ticket_def)
  show ?thesis
    unfolding one_per_identity_def
  proof (intro allI conjI)
    fix nid
    show "notes_with_id nid s' \<le> 1"
      using assms(1) by (simp add: same_notes one_per_identity_def)
    show "tickets_with_note_id nid s' \<le> 1"
      using assms(1) zero by (cases "nid = fid") (simp_all add: tickets one_per_identity_def)
  qed
qed

lemma classified_one [simp]:
  "one_per_identity (s\<lparr>classified := c\<rparr>) = one_per_identity s"
  by (simp add: one_per_identity_def notes_with_id_def tickets_with_note_id_def)

lemma classify_and_store_one:
  assumes "one_per_identity s"
  shows "one_per_identity (snd (classify_and_store e fid c s))"
proof -
  define s2 where "s2 = s\<lparr>classified := classified s @ [dict_get c ''displayTitle'' []]\<rparr>"
  have s2: "one_per_identity s2"
    using assms by (simp add: s2_def)
  define info where "info = analyze_ticket_content (classifier e (dict_get c ''displayTitle'' []))"
  show ?thesis
  proof (cases "ti_is_ticket_resale info")
    case False
    then show ?thesis
      using s2 by (simp add: classify_and_store_def Let_def info_def s2_def)
  next
    case True
    show ?thesis
    proof (cases "insert_ticket_section e fid info s2")
      case (Inl x)
      with True show ?thesis
        using s2 by (simp add: classify_and_store_def Let_def info_def s2_def)
    next
      case (Inr p)
      obtain r s' where p: "p = (r, s')" by (cases p)
      with Inr s2 have "one_per_identity s'" by (auto intro: insert_ticket_section_one)
      with True Inr p show ?thesis
        by (simp add: classify_and_store_def Let_def info_def s2_def)
    qed
  qed
qed

lemma process_single_feed_one:
  assumes "one_per_identity s"
  shows "one_per_identity (snd (process_single_feed e f tid s))"
  using process_single_feed_state [of e f tid s] assms
  by (auto simp: classify_and_store_one)

lemma remove_job_frame:
  assumes "remove_job jid s = Inr s'"
  shows "note_table s' = note_table s" "ticket_table s' = ticket_table s"
    "task_table s' = task_table s" "event_queue s' = event_queue s"
    "task_jobs s' = task_jobs s"
    "classified s' = classified s" "searched s' = searched s" "delivered s' = delivered s"
  using assms by (auto simp: remove_job_def split: option.splits)

lemma remove_task_schedule_frame:
  "note_table (snd (remove_task_schedule tid s)) = note_table s"
  "ticket_table (snd (remove_task_schedule tid s)) = ticket_table s"
  "event_queue (snd (remove_task_schedule tid s)) = event_queue s"
  "classified (snd (remove_task_schedule tid s)) = classified s"
  "searched (snd (remove_task_schedule tid s)) = searched s"
  "delivered (snd (remove_task_schedule tid s)) = delivered s"
  by (auto simp: remove_task_schedule_def Let_def dest: remove_job_frame
        split: sum.splits option.splits)

lemma delete_task_one:
  assumes "one_per_identity s"
  shows "one_per_identity (snd (delete_task e tid s))"
proof -
  define s1 where "s1 = snd (remove_task_schedule tid s)"
  have tables: "note_table s1 = note_table s" "ticket_table s1 = ticket_table s"
    by (simp_all add: s1_def remove_task_schedule_frame)
  show ?thesis
  proof (cases "get_task tid s1")
    case None
    then show ?thesis
      using assms tables
      by (simp add: delete_task_def Let_def s1_def [symmetric] one_per_identity_def
            notes_with_id_def tickets_with_note_id_def)
  next
    case (Some task)
    have n: "notes_with_id nid (snd (delete_task e tid s)) \<le> notes_with_id nid s" for nid
      using Some tables
      by (simp add: delete_task_def Let_def s1_def [symmetric] notes_with_id_def
            length_filter_filter_le del: filter_filter)
    have t: "tickets_with_note_id nid (snd (delete_task e tid s)) \<le> tickets_with_note_id nid s"
      for nid
    proof -
      have tt: "ticket_table (snd (delete_task e tid s)) =
          map (\<lambda>t. if ticket_note_id t \<in> set (map ticket_note_id
                  (filter (selected_for_delete task s1) (ticket_table s)))
                then t\<lparr>ticket_note_id := None\<rparr> else t)
            (filter (\<lambda>t. \<not> selected_for_delete task s1 t) (ticket_table s))"
        using Some tables
        by (simp add: delete_task_def Let_def s1_def [symmetric] del: filter_filter)
      have "tickets_with_note_id nid (snd (delete_task e tid s)) \<le>
          length (filter (\<lambda>t. ticket_note_id t = Some nid)
            (filter (\<lambda>t. \<not> selected_for_delete task s1 t) (ticket_table s)))"
        unfolding tickets_with_note_id_def tt by (rule count_after_clear)
      also have "\<dots> \<le> tickets_with_note_id nid s"
        unfolding tickets_with_note_id_def by (rule length_filter_filter_le)
      finally show ?thesis .
    qed
    show ?thesis
      unfolding one_per_identity_def
    proof (intro allI conjI)
      fix nid
      show "notes_with_id nid (snd (delete_task e tid s)) \<le> 1"
        using n [of nid] assms by (auto simp: one_per_identity_def intro: order_trans)
      show "tickets_with_note_id nid (snd (delete_task e tid s)) \<le> 1"
        using t [of nid] assms by (auto simp: one_per_identity_def intro: order_trans)
    qed
  qed
qed

lemma step_one: "one_per_identity s \<Longrightarrow> one_per_identity (step e a s)"
proof (cases a)
  case (InsertTicket fid info)
  assume inv: "one_per_identity s"
  show ?thesis
  proof (cases "insert_ticket_section e fid info s")
    case (Inl x)
    with inv InsertTicket show ?thesis by simp
  next
    case (Inr p)
    with inv have "one_per_identity (snd p)"
      by (cases p) (auto dest: insert_ticket_section_one)
    with Inr InsertTicket show ?thesis by simp
  qed
qed (simp_all add: process_single_feed_one delete_task_one)

lemma run_schedule_one: "one_per_identity s \<Longrightarrow> one_per_identity (run_schedule sched s)"
  by (induction sched arbitrary: s) (simp_all add: step_one)

lemma process_single_feed_duplicate:
  assumes "modelType f = Some ''note''" "feed_id f = Some fid" "fid \<noteq> []" "noteCard f \<noteq> []"
    "get_note fid s = Some n"
  shows "process_single_feed e f tid s = (failure_result ''already_exists'' (Some fid), s)"
  using assms by (simp add: process_single_feed_def insert_note_section_def)

section \<open>A post that is new\<close>

lemma process_single_feed_new:
  assumes "modelType f = Some ''note''" "feed_id f = Some fid" "fid \<noteq> []" "noteCard f \<noteq> []"
    "get_note fid s = None"
  shows "process_single_feed e f tid s = classify_and_store e fid (noteCard f) s"
  using assms by (simp add: process_single_feed_def insert_note_section_def)

lemma process_single_feed_not_new:
  assumes "\<not> is_new_post s f"
  shows "snd (process_single_feed e f tid s) = s" "\<not> success (fst (process_single_feed e f tid s))"
  using assms
  by (auto simp: process_single_feed_def insert_note_section_def is_new_post_def
        failure_result_def split: option.splits)

lemma is_new_post_same_notes:
  assumes "note_table s' = note_table s"
  shows "is_new_post s' = is_new_post s"
proof -
  have "get_note fid s' = get_note fid s" for fid
    using assms by (simp add: get_note_def)
  then show ?thesis
    by (auto simp: is_new_post_def fun_eq_iff split: option.splits)
qed

lemma insert_ticket_section_tickets:
  assumes "insert_ticket_section e fid info s = Inr (r, s')"
  shows "length (ticket_table s') =
      length (ticket_table s) + (if success r \<and> is_ticket r = Some True then 1 else 0)"
  using assms
  by (auto simp: insert_ticket_section_def bind_err_def failure_result_def ticket_result_def
        split: option.splits sum.splits)

lemma classify_and_store_classified:
  "classified (snd (classify_and_store e fid c s)) = classified s @ [dict_get c ''displayTitle'' []]"
  by (auto simp: classify_and_store_def Let_def dest: insert_ticket_section_frame
        split: sum.splits)

lemma classify_and_store_tickets:
  "length (ticket_table (snd (classify_and_store e fid c s))) =
     length (ticket_table s) +
       (if success (fst (classify_and_store e fid c s)) \<and>
           is_ticket (fst (classify_and_store e fid c s)) = Some True then 1 else 0)"
proof -
  define s2 where "s2 = s\<lparr>classified := classified s @ [dict_get c ''displayTitle'' []]\<rparr>"
  define info where "info = analyze_ticket_content (classifier e (dict_get c ''displayTitle'' []))"
  show ?thesis
  proof (cases "ti_is_ticket_resale info")
    case False
    then show ?thesis
      by (simp add: classify_and_store_def Let_def info_def no_ticket_result_def)
  next
    case True
    show ?thesis
    proof (cases "insert_ticket_section e fid info s2")
      case (Inl x)
      with True show ?thesis
        by (simp add: classify_and_store_def Let_def info_def s2_def error_result_def)
    next
      case (Inr p)
      obtain r s' where p: "p = (r, s')" by (cases p)
      from Inr p have "length (ticket_table s') =
          length (ticket_table s2) + (if success r \<and> is_ticket r = Some True then 1 else 0)"
        by (auto dest: insert_ticket_section_tickets)
      with True Inr p show ?thesis
        by (simp add: classify_and_store_def Let_def info_def s2_def)
    qed
  qed
qed

lemma classify_and_store_same_store:
  assumes "ticket_table a = ticket_table b"
  shows "fst (classify_and_store e fid c a) = fst (classify_and_store e fid c b)"
    "ticket_table (snd (classify_and_store e fid c a)) =
     ticket_table (snd (classify_and_store e fid c b))"
  using assms
  by (simp_all add: classify_and_store_def insert_ticket_section_def get_ticket_by_note_id_def
        new_ticket_def bind_err_def Let_def split: sum.splits option.splits)

lemma process_single_feed_classified:
  "classified (snd (process_single_feed e f tid s)) =
     classified s @ (if is_new_post s f then [title_of f] else [])"
proof (cases "is_new_post s f")
  case False
  then show ?thesis by (simp add: process_single_feed_not_new)
next
  case True
  then obtain fid where "modelType f = Some ''note''" "feed_id f = Some fid" "fid \<noteq> []"
    "noteCard f \<noteq> []" "get_note fid s = None"
    by (auto simp: is_new_post_def split: option.splits)
  then have "process_single_feed e f tid s = classify_and_store e fid (noteCard f) s"
    by (rule process_single_feed_new)
  with True show ?thesis
    by (simp add: classify_and_store_classified title_of_def)
qed

lemma process_single_feed_tickets:
  "length (ticket_table (snd (process_single_feed e f tid s))) =
     length (ticket_table s) +
       (if success (fst (process_single_feed e f tid s)) \<and>
           is_ticket (fst (process_single_feed e f tid s)) = Some True then 1 else 0)"
proof (cases "is_new_post s f")
  case False
  then show ?thesis by (simp add: process_single_feed_not_new)
next
  case True
  then obtain fid where "modelType f = Some ''note''" "feed_id f = Some fid" "fid \<noteq> []"
    "noteCard f \<noteq> []" "get_note fid s = None"
    by (auto simp: is_new_post_def split: option.splits)
  then have "process_single_feed e f tid s = classify_and_store e fid (noteCard f) s"
    by (rule process_single_feed_new)
  then show ?thesis
    by (simp add: classify_and_store_tickets)
qed

lemma process_single_feed_same_store:
  assumes "note_table a = note_table b" "ticket_table a = ticket_table b"
  shows "fst (process_single_feed e f tid a) = fst (process_single_feed e f tid b)"
    "ticket_table (snd (process_single_feed e f tid a)) =
     ticket_table (snd (process_single_feed e f tid b))"
proof -
  have g: "get_note fid a = get_note fid b" for fid
    using assms(1) by (simp add: get_note_def)
  show "fst (process_single_feed e f tid a) = fst (process_single_feed e f tid b)"
    using assms(2) classify_and_store_same_store(1) [OF assms(2)]
    by (simp add: process_single_feed_def insert_note_section_def g split: option.splits)
  show "ticket_table (snd (process_single_feed e f tid a)) =
     ticket_table (snd (process_single_feed e f tid b))"
    using assms(2) classify_and_store_same_store(2) [OF assms(2)]
    by (simp add: process_single_feed_def insert_note_section_def g split: option.splits)
qed

section \<open>Looking up and removing tasks\<close>

lemma find_map_update:
  assumes "\<And>t. we_id (f t) = we_id t"
  shows "find (\<lambda>t. we_id t = tid) (map (\<lambda>t. if we_id t = tid then f t else t) ts) =
         map_option f (find (\<lambda>t. we_id t = tid) ts)"
  using assms by (induction ts) auto

lemma get_task_update_task:
  assumes "\<And>t. we_id (f t) = we_id t"
  shows "get_task tid (update_task tid f s) = map_option f (get_task tid s)"
  using find_map_update [OF assms] by (simp add: get_task_def)







section \<open>Facts about the runs\<close>

lemma optimize_search_keyword_returns:
  "\<exists>k. optimize_search_keyword kw post = Inr k"
  by (auto simp: optimize_search_keyword_def optimize_try_body_def try_except_def bind_err_def
        split: sum.splits if_splits)

lemma foldr_max_ge: "x \<in> set xs \<Longrightarrow> x \<le> foldr max xs (0::nat)"
  by (induction xs) (auto simp: max_def)

lemma next_id_fresh: "t \<in> set ts \<Longrightarrow> we_id t \<noteq> next_id (map we_id ts)"
  using foldr_max_ge [of "we_id t" "map we_id ts"] by (auto simp: next_id_def)

lemma find_appended_new:
  assumes "\<And>t. t \<in> set ts \<Longrightarrow> we_id t \<noteq> tid" "we_id t' = tid"
  shows "find (\<lambda>t. we_id t = tid) (ts @ [t']) = Some t'"
  using assms by (induction ts) auto

lemma map_of_dict_set: "map_of (dict_set k v d) k = Some v"
  by (induction d) (auto simp: dict_set_def)

lemma add_task_schedule_frame:
  "note_table (add_task_schedule e tid kw i s) = note_table s"
  "ticket_table (add_task_schedule e tid kw i s) = ticket_table s"
  "event_queue (add_task_schedule e tid kw i s) = event_queue s"
  "classified (add_task_schedule e tid kw i s) = classified s"
  "searched (add_task_schedule e tid kw i s) = searched s"
  "delivered (add_task_schedule e tid kw i s) = delivered s"
  "task_table (add_task_schedule e tid kw i s) =
     map (\<lambda>t. if we_id t = tid then t\<lparr>next_run_at := Some (utcnow e + i)\<rparr> else t) (task_table s)"
  by (auto simp: add_task_schedule_def Let_def dest: remove_job_frame
        split: sum.splits)

lemma add_task_schedule_registers:
  "map_of (task_jobs (add_task_schedule e tid kw i s)) (KInt tid) = Some (job_id_of tid)"
  "map_of (jobs (add_task_schedule e tid kw i s)) (job_id_of tid) =
     Some \<lparr>job_task_id = tid, job_keyword = kw, job_seconds = i, job_paused = False\<rparr>"
  by (simp_all add: add_task_schedule_def Let_def map_of_dict_set)

lemma process_single_feed_pair:
  assumes "process_single_feed e f tid s = (r, s1)"
  shows "task_table s1 = task_table s" "event_queue s1 = event_queue s"
    "searched s1 = searched s" "task_jobs s1 = task_jobs s" "jobs s1 = jobs s"
    "note_table s1 = note_table s"
    "classified s1 = classified s @ (if is_new_post s f then [title_of f] else [])"
    "length (ticket_table s1) =
       length (ticket_table s) + (if success r \<and> is_ticket r = Some True then 1 else 0)"
  using process_single_feed_frame [of e f tid s] process_single_feed_classified [of e f tid s]
    process_single_feed_tickets [of e f tid s] assms
  by simp_all

lemma scheduled_loop_frame:
  "task_table (snd (scheduled_loop e tid fs c s)) = task_table s \<and>
   event_queue (snd (scheduled_loop e tid fs c s)) = event_queue s \<and>
   searched (snd (scheduled_loop e tid fs c s)) = searched s \<and>
   task_jobs (snd (scheduled_loop e tid fs c s)) = task_jobs s \<and>
   jobs (snd (scheduled_loop e tid fs c s)) = jobs s \<and>
   note_table (snd (scheduled_loop e tid fs c s)) = note_table s"
proof (induction fs arbitrary: c s)
  case Nil
  show ?case by simp
next
  case (Cons f fs)
  obtain r s1 where p: "process_single_feed e f tid s = (r, s1)"
    by (cases "process_single_feed e f tid s")
  show ?case
    using Cons.IH [of _ s1] process_single_feed_pair(1-6) [OF p]
    by (simp add: p)
qed

text \<open>The loop classifies the new posts of the list, in the order of the list, and its
  count is the number of tickets that were added.\<close>

lemma scheduled_loop_classified:
  "classified (snd (scheduled_loop e tid fs c s)) =
     classified s @ map title_of (filter (is_new_post s) fs)"
proof (induction fs arbitrary: c s)
  case Nil
  show ?case by simp
next
  case (Cons f fs)
  obtain r s1 where p: "process_single_feed e f tid s = (r, s1)"
    by (cases "process_single_feed e f tid s")
  have same: "is_new_post s1 = is_new_post s"
    using process_single_feed_pair(6) [OF p] by (rule is_new_post_same_notes)
  show ?case
    using Cons.IH [of _ s1] process_single_feed_pair(7) [OF p]
    by (simp add: p same)
qed

lemma scheduled_loop_count:
  "fst (scheduled_loop e tid fs c s) + length (ticket_table s) =
     c + length (ticket_table (snd (scheduled_loop e tid fs c s)))"
proof (induction fs arbitrary: c s)
  case Nil
  show ?case by simp
next
  case (Cons f fs)
  obtain r s1 where p: "process_single_feed e f tid s = (r, s1)"
    by (cases "process_single_feed e f tid s")
  show ?case
  proof (cases "success r \<and> is_ticket r = Some True")
    case True
    with Cons.IH [of "c + 1" s1] process_single_feed_pair(8) [OF p] show ?thesis
      by (simp add: p)
  next
    case False
    with Cons.IH [of c s1] process_single_feed_pair(8) [OF p] show ?thesis
      by (auto simp: p)
  qed
qed

text \<open>The tickets after the loop are those after the calls of \<open>process_single_feed\<close>, one
  for each post of the list in turn; only the two tables of the state matter to them.\<close>

lemma scheduled_loop_tickets:
  assumes "note_table a = note_table b" "ticket_table a = ticket_table b"
  shows "ticket_table (snd (scheduled_loop e tid fs c a)) =
     ticket_table (foldl (\<lambda>st f. snd (process_single_feed e f tid st)) b fs)"
  using assms
proof (induction fs arbitrary: c a b)
  case Nil
  then show ?case by simp
next
  case (Cons f fs)
  obtain r a1 where p: "process_single_feed e f tid a = (r, a1)"
    by (cases "process_single_feed e f tid a")
  have n: "note_table a1 = note_table (snd (process_single_feed e f tid b))"
    using process_single_feed_pair(6) [OF p] Cons.prems(1)
    by (simp add: process_single_feed_frame)
  have t: "ticket_table a1 = ticket_table (snd (process_single_feed e f tid b))"
    using process_single_feed_same_store(2) [OF Cons.prems, of e f tid] by (simp add: p)
  show ?case
    using Cons.IH [OF n t] by (simp add: p)
qed

lemma execute_scheduled_task_running:
  assumes "get_task tid s = Some task" "status task = ''running''"
  shows "execute_scheduled_task e tid kw s =
    scheduled_search e tid kw ((case run_count task of None \<Rightarrow> 0 | Some c \<Rightarrow> c) + 1)
      (notify_clients e ''task_update''
         (TaskRunUpdate tid ''running''
            (scheduled_run_message ((case run_count task of None \<Rightarrow> 0 | Some c \<Rightarrow> c) + 1))
            ((case run_count task of None \<Rightarrow> 0 | Some c \<Rightarrow> c) + 1)
            (Some (utcnow e)) (Some (utcnow e + schedule_interval task)))
         (update_task tid
            (\<lambda>t. t\<lparr>last_run_at := Some (utcnow e),
                    run_count := Some ((case run_count task of None \<Rightarrow> 0 | Some c \<Rightarrow> c) + 1),
                    next_run_at := Some (utcnow e + schedule_interval task),
                    message := scheduled_run_message
                      ((case run_count task of None \<Rightarrow> 0 | Some c \<Rightarrow> c) + 1)\<rparr>) s))"
  using assms by (simp add: execute_scheduled_task_def Let_def)

lemma execute_scheduled_task_skips:
  assumes "get_task tid s = Some task" "status task \<noteq> ''running''"
  shows "execute_scheduled_task e tid kw s = s"
  using assms by (simp add: execute_scheduled_task_def)

lemma scheduled_search_failed:
  assumes "optimize_search_keyword kw (keyword_api e kw) = Inr k" "search_feeds e k = Inl err"
  shows "scheduled_search e tid kw n s =
    scheduled_failure e tid err
      ((notify_clients e ''task_update'' (TaskUpdate tid ''running'' (searching_xhs_message k)) s)
         \<lparr>searched := searched s @ [k]\<rparr>)"
  using assms by (simp add: scheduled_search_def Let_def)

lemma scheduled_search_found:
  assumes "optimize_search_keyword kw (keyword_api e kw) = Inr k" "search_feeds e k = Inr feeds"
  shows "scheduled_search e tid kw n s =
    (case scheduled_loop e tid feeds 0
            (notify_clients e ''task_update'' (TaskUpdate tid ''running'' (found_message (length feeds)))
               ((notify_clients e ''task_update''
                   (TaskUpdate tid ''running'' (searching_xhs_message k)) s)
                  \<lparr>searched := searched s @ [k]\<rparr>)) of
       (ticket_count, s4) \<Rightarrow>
         notify_clients e ''task_update'' (TaskUpdate tid ''running'' (run_done_message n ticket_count))
           (update_task tid (\<lambda>t. t\<lparr>message := run_done_message n ticket_count\<rparr>) s4))"
  using assms by (simp add: scheduled_search_def Let_def)

lemma scheduled_search_effects:
  assumes "optimize_search_keyword kw (keyword_api e kw) = Inr k"
  shows "searched (scheduled_search e tid kw n s) = searched s @ [k] \<and>
    (\<exists>rest. event_queue (scheduled_search e tid kw n s) = event_queue s @ rest) \<and>
    (\<exists>m. task_table (scheduled_search e tid kw n s) =
        map (\<lambda>t. if we_id t = tid then t\<lparr>message := m\<rparr> else t) (task_table s)) \<and>
    task_jobs (scheduled_search e tid kw n s) = task_jobs s \<and>
    jobs (scheduled_search e tid kw n s) = jobs s"
proof (cases "search_feeds e k")
  case (Inl err)
  show ?thesis
    unfolding scheduled_search_failed [OF assms Inl]
    by (auto simp: scheduled_failure_def)
next
  case (Inr feeds)
  define s3 where "s3 = notify_clients e ''task_update''
      (TaskUpdate tid ''running'' (found_message (length feeds)))
      ((notify_clients e ''task_update'' (TaskUpdate tid ''running'' (searching_xhs_message k)) s)
         \<lparr>searched := searched s @ [k]\<rparr>)"
  obtain c s4 where l: "scheduled_loop e tid feeds 0 s3 = (c, s4)"
    by (cases "scheduled_loop e tid feeds 0 s3")
  have f: "task_table s4 = task_table s3" "event_queue s4 = event_queue s3"
    "searched s4 = searched s3" "task_jobs s4 = task_jobs s3" "jobs s4 = jobs s3"
    using scheduled_loop_frame [of e tid feeds 0 s3] l by simp_all
  show ?thesis
    unfolding scheduled_search_found [OF assms Inr] s3_def [symmetric] l
    by (auto simp: f) (auto simp: s3_def)
qed

lemma execute_search_task_failed:
  assumes "optimize_search_keyword keyword (keyword_api e keyword) = Inr k"
    "search_feeds e k = Inl err"
  shows "execute_search_task e keyword s =
    (False,
     notify_clients e ''task_update''
       (TaskUpdate (next_id (map we_id (task_table s))) ''failed'' (mcp_failed_message err))
       (update_task (next_id (map we_id (task_table s))) (\<lambda>t. t\<lparr>status := ''failed'', code := 500\<rparr>)
          ((notify_clients e ''task_update''
              (TaskUpdate (next_id (map we_id (task_table s))) ''running''
                 (searching_message keyword k))
              (add_task_schedule e (next_id (map we_id (task_table s))) keyword 60
                 (s\<lparr>task_table := task_table s @
                      [new_task e (next_id (map we_id (task_table s))) keyword k]\<rparr>)))
             \<lparr>searched := searched s @ [k]\<rparr>)))"
  using assms by (simp add: execute_search_task_def Let_def add_task_schedule_frame)

lemma execute_search_task_empty:
  assumes "optimize_search_keyword keyword (keyword_api e keyword) = Inr k"
    "search_feeds e k = Inr []"
  shows "execute_search_task e keyword s =
    (False,
     notify_clients e ''task_update''
       (TaskUpdate (next_id (map we_id (task_table s))) ''completed'' txt_no_data)
       (update_task (next_id (map we_id (task_table s))) (\<lambda>t. t\<lparr>status := ''completed''\<rparr>)
          ((notify_clients e ''task_update''
              (TaskUpdate (next_id (map we_id (task_table s))) ''running''
                 (searching_message keyword k))
              (add_task_schedule e (next_id (map we_id (task_table s))) keyword 60
                 (s\<lparr>task_table := task_table s @
                      [new_task e (next_id (map we_id (task_table s))) keyword k]\<rparr>)))
             \<lparr>searched := searched s @ [k]\<rparr>)))"
  using assms by (simp add: execute_search_task_def Let_def add_task_schedule_frame)

text \<open>The record of the task that a creation run has just added, after the timer has been
  registered and \<open>f\<close> has been written to it.\<close>

lemma created_task_found:
  assumes "\<And>t. we_id (f t) = we_id t" and "tid = next_id (map we_id (task_table s))"
  shows "get_task tid
      (notify_clients e ty d
         (update_task tid f
            ((notify_clients e ty' d'
                (add_task_schedule e tid keyword 60
                   (s\<lparr>task_table := task_table s @ [new_task e tid keyword k]\<rparr>)))
               \<lparr>searched := sr\<rparr>))) =
    Some (f ((new_task e tid keyword k)\<lparr>next_run_at := Some (utcnow e + 60)\<rparr>))"
proof -
  have fresh: "\<And>t. t \<in> set (task_table s) \<Longrightarrow> we_id t \<noteq> tid"
    using assms(2) next_id_fresh by blast
  have new: "find (\<lambda>t. we_id t = tid) (task_table s @ [new_task e tid keyword k]) =
      Some (new_task e tid keyword k)"
  proof (rule find_appended_new)
    show "\<And>t. t \<in> set (task_table s) \<Longrightarrow> we_id t \<noteq> tid" by (rule fresh)
    show "we_id (new_task e tid keyword k) = tid" by (simp add: new_task_def)
  qed
  have p1: "\<And>t. we_id (t\<lparr>next_run_at := Some (utcnow e + 60)\<rparr>) = we_id t" by simp
  note e1 = find_map_update [of "\<lambda>t. t\<lparr>next_run_at := Some (utcnow e + 60)\<rparr>" tid
      "task_table s @ [new_task e tid keyword k]", OF p1]
  note e2 = find_map_update [of f tid
      "map (\<lambda>t. if we_id t = tid then t\<lparr>next_run_at := Some (utcnow e + 60)\<rparr> else t)
         (task_table s @ [new_task e tid keyword k])", OF assms(1)]
  have tt: "task_table
      (notify_clients e ty d
         (update_task tid f
            ((notify_clients e ty' d'
                (add_task_schedule e tid keyword 60
                   (s\<lparr>task_table := task_table s @ [new_task e tid keyword k]\<rparr>)))
               \<lparr>searched := sr\<rparr>))) =
      map (\<lambda>t. if we_id t = tid then f t else t)
        (map (\<lambda>t. if we_id t = tid then t\<lparr>next_run_at := Some (utcnow e + 60)\<rparr> else t)
           (task_table s @ [new_task e tid keyword k]))"
    by (simp add: add_task_schedule_frame del: map_map map_append)
  show ?thesis
    unfolding get_task_def tt e2 e1 new by simp
qed

lemma messages_not_empty:
  "mcp_failed_message err \<noteq> []" "run_failed_message err \<noteq> []"
  by (simp_all add: mcp_failed_message_def run_failed_message_def txt_mcp_failed_prefix_def
        txt_run_failed_prefix_def)

section \<open>Idempotent persistence\<close>

text \<open>
  C1. Starting from a store in which no identity has two notes or two tickets (the
  empty store is one), after every schedule of the workers' blocks under the lock, whole
  calls of \<open>process_single_feed\<close>, empty commits and task deletions, in any
  interleaving, the store holds at most one note for an identity and at most one ticket
  that refers to it. A call for a well-formed feed whose note is in the store returns
  the \<open>already_exists\<close> result and leaves the whole state as it was: nothing is
  classified again and nothing is written. (The calls themselves leave no note in the
  store, see C5, so such a note has been written by other means, and a second call for
  a post that an earlier call has handled does not meet this case: in the schedule of
  the example, two whole calls and three single blocks for the post \<open>n1\<close> leave no
  note and one ticket, and the classifier has been asked twice.)
\<close>

theorem at_most_one_post_and_ticket_per_identity:
  "(one_per_identity s \<longrightarrow>
      notes_with_id nid (run_schedule sched s) \<le> 1 \<and>
      tickets_with_note_id nid (run_schedule sched s) \<le> 1) \<and>
   (modelType f = Some ''note'' \<and> feed_id f = Some fid \<and> fid \<noteq> [] \<and> noteCard f \<noteq> [] \<and>
    get_note fid s \<noteq> None \<longrightarrow>
      process_single_feed e f tid s = (failure_result ''already_exists'' (Some fid), s))"
proof (intro conjI impI)
  assume "one_per_identity s"
  then have inv: "one_per_identity (run_schedule sched s)" by (rule run_schedule_one)
  show "notes_with_id nid (run_schedule sched s) \<le> 1"
    using inv by (simp add: one_per_identity_def)
  show "tickets_with_note_id nid (run_schedule sched s) \<le> 1"
    using inv by (simp add: one_per_identity_def)
next
  assume "modelType f = Some ''note'' \<and> feed_id f = Some fid \<and> fid \<noteq> [] \<and> noteCard f \<noteq> [] \<and>
    get_note fid s \<noteq> None"
  then show "process_single_feed e f tid s = (failure_result ''already_exists'' (Some fid), s)"
    by (auto intro: process_single_feed_duplicate)
qed

theorem at_most_one_post_and_ticket_per_identity_witness:
  "one_per_identity empty_system \<and>
   notes_with_id ''n1'' (run_schedule racing_workers empty_system) \<le> 1 \<and>
   tickets_with_note_id ''n1'' (run_schedule racing_workers empty_system) \<le> 1 \<and>
   notes_with_id ''n1'' (run_schedule racing_workers empty_system) = 0 \<and>
   tickets_with_note_id ''n1'' (run_schedule racing_workers empty_system) = 1 \<and>
   classified (run_schedule racing_workers empty_system) =
     [''two tickets for sale'', ''two tickets for sale''] \<and>
   modelType post_n1 = Some ''note'' \<and> feed_id post_n1 = Some ''n1'' \<and> ''n1'' \<noteq> [] \<and>
   noteCard post_n1 \<noteq> [] \<and> get_note ''n1'' store_with_plain_post \<noteq> None \<and>
   process_single_feed (env_of feeds_n1 says_yes) post_n1 7 store_with_plain_post =
     (failure_result ''already_exists'' (Some ''n1''), store_with_plain_post)"
proof -
  have a: "one_per_identity empty_system"
    by (simp add: one_per_identity_def notes_with_id_def tickets_with_note_id_def
          empty_system_def)
  have b: "modelType post_n1 = Some ''note'' \<and> feed_id post_n1 = Some ''n1'' \<and> ''n1'' \<noteq> [] \<and>
      noteCard post_n1 \<noteq> [] \<and> get_note ''n1'' store_with_plain_post \<noteq> None"
    by code_simp
  from a have c: "notes_with_id ''n1'' (run_schedule racing_workers empty_system) \<le> 1 \<and>
      tickets_with_note_id ''n1'' (run_schedule racing_workers empty_system) \<le> 1"
    using at_most_one_post_and_ticket_per_identity
      [of empty_system "''n1''" racing_workers post_n1 "''n1''"] by blast
  from b have d: "process_single_feed (env_of feeds_n1 says_yes) post_n1 7 store_with_plain_post =
     (failure_result ''already_exists'' (Some ''n1''), store_with_plain_post)"
    using at_most_one_post_and_ticket_per_identity
      [of store_with_plain_post "''n1''" "[]" post_n1 "''n1''"
          "env_of feeds_n1 says_yes" 7] by blast
  have v: "notes_with_id ''n1'' (run_schedule racing_workers empty_system) = 0 \<and>
      tickets_with_note_id ''n1'' (run_schedule racing_workers empty_system) = 1 \<and>
      classified (run_schedule racing_workers empty_system) =
        [''two tickets for sale'', ''two tickets for sale'']"
    by code_simp
  from a b c d v show ?thesis by blast
qed

section \<open>A run whose search fails\<close>

text \<open>
  C2, as stated, fails. The timer fires for task 7, whose status is \<open>running\<close>, and the
  search times out: after the run the status of task 7 is still \<open>running\<close>, not
  \<open>failed\<close>.
\<close>

theorem fetch_failure_counterexample:
  "get_task 7 system_with_task7 = Some task7 \<and> status task7 = ''running'' \<and>
   optimize_search_keyword ''jay'' (keyword_api (env_of feeds_timeout says_no) ''jay'') = Inr ''jay'' \<and>
   search_feeds (env_of feeds_timeout says_no) ''jay'' = Inl ''timed out'' \<and>
   map status
     (task_table (execute_scheduled_task (env_of feeds_timeout says_no) 7 ''jay'' system_with_task7)) =
     [''running'']"
  by code_simp

text \<open>
  C2, amended. When the search of a run raises an exception with message \<open>err\<close>: in a
  run started by the creation of a task, the new task's status becomes \<open>failed\<close> (and
  its code 500), and after the event that announced the search exactly one more event
  is published, a \<open>task_update\<close> with status \<open>failed\<close> and a non-empty message that
  ends with \<open>err\<close>; in a run started by the timer, the task's status stays \<open>running\<close>,
  its message becomes the non-empty failure message that ends with \<open>err\<close>, and after
  the two events that announced the run and the search exactly one more event is
  published, a \<open>task_update\<close> with that message. In both, no post is processed (notes,
  tickets and the classifier's log are as before) and the task's timer stays
  registered.
\<close>

theorem fetch_failure_is_reported:
  assumes "optimize_search_keyword keyword (keyword_api e keyword) = Inr k"
    and "search_feeds e k = Inl err"
  shows
    "(new_id = next_id (map we_id (task_table s)) \<and> s_created = snd (execute_search_task e keyword s) \<longrightarrow>
        fst (execute_search_task e keyword s) = False \<and>
        map_option status (get_task new_id s_created) = Some ''failed'' \<and>
        map_option code (get_task new_id s_created) = Some 500 \<and>
        event_queue s_created = event_queue s @
          [\<lparr>ev_type = ''task_update'',
            ev_data = TaskUpdate new_id ''running'' (searching_message keyword k),
            ev_timestamp = now e\<rparr>,
           \<lparr>ev_type = ''task_update'',
            ev_data = TaskUpdate new_id ''failed'' (mcp_failed_message err),
            ev_timestamp = now e\<rparr>] \<and>
        mcp_failed_message err \<noteq> [] \<and>
        note_table s_created = note_table s \<and> ticket_table s_created = ticket_table s \<and>
        classified s_created = classified s \<and>
        map_of (task_jobs s_created) (KInt new_id) = Some (job_id_of new_id) \<and>
        map_of (jobs s_created) (job_id_of new_id) =
          Some \<lparr>job_task_id = new_id, job_keyword = keyword, job_seconds = 60,
                job_paused = False\<rparr>) \<and>
     (get_task tid s = Some task \<and> status task = ''running'' \<and>
      n = (case run_count task of None \<Rightarrow> 0 | Some c \<Rightarrow> c) + 1 \<and>
      s_fired = execute_scheduled_task e tid keyword s \<longrightarrow>
        map_option status (get_task tid s_fired) = Some ''running'' \<and>
        map_option message (get_task tid s_fired) = Some (run_failed_message err) \<and>
        event_queue s_fired = event_queue s @
          [\<lparr>ev_type = ''task_update'',
            ev_data = TaskRunUpdate tid ''running'' (scheduled_run_message n) n
                        (Some (utcnow e)) (Some (utcnow e + schedule_interval task)),
            ev_timestamp = now e\<rparr>,
           \<lparr>ev_type = ''task_update'',
            ev_data = TaskUpdate tid ''running'' (searching_xhs_message k),
            ev_timestamp = now e\<rparr>,
           \<lparr>ev_type = ''task_update'',
            ev_data = TaskUpdate tid ''running'' (run_failed_message err),
            ev_timestamp = now e\<rparr>] \<and>
        run_failed_message err \<noteq> [] \<and>
        note_table s_fired = note_table s \<and> ticket_table s_fired = ticket_table s \<and>
        classified s_fired = classified s \<and>
        task_jobs s_fired = task_jobs s \<and> jobs s_fired = jobs s)"
proof (intro conjI impI)
  assume a: "new_id = next_id (map we_id (task_table s)) \<and> s_created = snd (execute_search_task e keyword s)"
  then have id: "new_id = next_id (map we_id (task_table s))" by simp
  define upd :: "WorkflowExecution \<Rightarrow> WorkflowExecution"
    where "upd = (\<lambda>t. t\<lparr>status := ''failed'', code := 500\<rparr>)"
  have s_created: "s_created = notify_clients e ''task_update''
       (TaskUpdate new_id ''failed'' (mcp_failed_message err))
       (update_task new_id upd
          ((notify_clients e ''task_update''
              (TaskUpdate new_id ''running'' (searching_message keyword k))
              (add_task_schedule e new_id keyword 60
                 (s\<lparr>task_table := task_table s @ [new_task e new_id keyword k]\<rparr>)))
             \<lparr>searched := searched s @ [k]\<rparr>))"
    using a by (simp add: execute_search_task_failed [OF assms] upd_def)
  have t: "get_task new_id s_created =
      Some (upd ((new_task e new_id keyword k)\<lparr>next_run_at := Some (utcnow e + 60)\<rparr>))"
    unfolding s_created by (rule created_task_found) (simp_all add: upd_def id)
  show "fst (execute_search_task e keyword s) = False"
    by (simp add: execute_search_task_failed [OF assms])
  show "map_option status (get_task new_id s_created) = Some ''failed''"
    by (simp add: t upd_def)
  show "map_option code (get_task new_id s_created) = Some 500"
    by (simp add: t upd_def)
  show "event_queue s_created = event_queue s @
          [\<lparr>ev_type = ''task_update'',
            ev_data = TaskUpdate new_id ''running'' (searching_message keyword k),
            ev_timestamp = now e\<rparr>,
           \<lparr>ev_type = ''task_update'',
            ev_data = TaskUpdate new_id ''failed'' (mcp_failed_message err),
            ev_timestamp = now e\<rparr>]"
    by (simp add: s_created add_task_schedule_frame)
  show "mcp_failed_message err \<noteq> []" by (rule messages_not_empty)
  show "note_table s_created = note_table s" by (simp add: s_created add_task_schedule_frame)
  show "ticket_table s_created = ticket_table s" by (simp add: s_created add_task_schedule_frame)
  show "classified s_created = classified s" by (simp add: s_created add_task_schedule_frame)
  show "map_of (task_jobs s_created) (KInt new_id) = Some (job_id_of new_id)"
    by (simp add: s_created add_task_schedule_registers)
  show "map_of (jobs s_created) (job_id_of new_id) =
          Some \<lparr>job_task_id = new_id, job_keyword = keyword, job_seconds = 60,
                job_paused = False\<rparr>"
    by (simp add: s_created add_task_schedule_registers)
next
  assume a: "get_task tid s = Some task \<and> status task = ''running'' \<and>
      n = (case run_count task of None \<Rightarrow> 0 | Some c \<Rightarrow> c) + 1 \<and>
      s_fired = execute_scheduled_task e tid keyword s"
  define upd :: "WorkflowExecution \<Rightarrow> WorkflowExecution"
    where "upd = (\<lambda>t. t\<lparr>last_run_at := Some (utcnow e), run_count := Some n,
      next_run_at := Some (utcnow e + schedule_interval task),
      message := scheduled_run_message n\<rparr>)"
  define msg :: "WorkflowExecution \<Rightarrow> WorkflowExecution"
    where "msg = (\<lambda>t. t\<lparr>message := run_failed_message err\<rparr>)"
  have s_fired: "s_fired = notify_clients e ''task_update''
       (TaskUpdate tid ''running'' (run_failed_message err))
       (update_task tid msg
          ((notify_clients e ''task_update'' (TaskUpdate tid ''running'' (searching_xhs_message k))
              (notify_clients e ''task_update''
                 (TaskRunUpdate tid ''running'' (scheduled_run_message n) n
                    (Some (utcnow e)) (Some (utcnow e + schedule_interval task)))
                 (update_task tid upd s)))
             \<lparr>searched := searched s @ [k]\<rparr>))"
    using a
    by (simp add: execute_scheduled_task_running scheduled_search_failed [OF assms]
          scheduled_failure_def upd_def msg_def)
  have p1: "\<And>t. we_id (upd t) = we_id t" by (simp add: upd_def)
  have p2: "\<And>t. we_id (msg t) = we_id t" by (simp add: msg_def)
  note e1 = find_map_update [of upd tid "task_table s", OF p1]
  note e2 = find_map_update [of msg tid
      "map (\<lambda>t. if we_id t = tid then upd t else t) (task_table s)", OF p2]
  have tt: "task_table s_fired =
      map (\<lambda>t. if we_id t = tid then msg t else t)
        (map (\<lambda>t. if we_id t = tid then upd t else t) (task_table s))"
    by (simp add: s_fired del: map_map)
  have found: "find (\<lambda>t. we_id t = tid) (task_table s) = Some task"
    using a by (simp add: get_task_def)
  have t: "get_task tid s_fired = Some (msg (upd task))"
    unfolding get_task_def tt e2 e1 found by simp
  have st: "status task = ''running''" using a by simp
  show "map_option status (get_task tid s_fired) = Some ''running''"
    using st by (simp add: t msg_def upd_def)
  show "map_option message (get_task tid s_fired) = Some (run_failed_message err)"
    by (simp add: t msg_def)
  show "event_queue s_fired = event_queue s @
          [\<lparr>ev_type = ''task_update'',
            ev_data = TaskRunUpdate tid ''running'' (scheduled_run_message n) n
                        (Some (utcnow e)) (Some (utcnow e + schedule_interval task)),
            ev_timestamp = now e\<rparr>,
           \<lparr>ev_type = ''task_update'',
            ev_data = TaskUpdate tid ''running'' (searching_xhs_message k),
            ev_timestamp = now e\<rparr>,
           \<lparr>ev_type = ''task_update'',
            ev_data = TaskUpdate tid ''running'' (run_failed_message err),
            ev_timestamp = now e\<rparr>]"
    by (simp add: s_fired)
  show "run_failed_message err \<noteq> []" by (rule messages_not_empty)
  show "note_table s_fired = note_table s" by (simp add: s_fired)
  show "ticket_table s_fired = ticket_table s" by (simp add: s_fired)
  show "classified s_fired = classified s" by (simp add: s_fired)
  show "task_jobs s_fired = task_jobs s" by (simp add: s_fired)
  show "jobs s_fired = jobs s" by (simp add: s_fired)
qed

theorem fetch_failure_is_reported_witness:
  "optimize_search_keyword ''jay'' (keyword_api (env_of feeds_timeout says_no) ''jay'') = Inr ''jay'' \<and>
   search_feeds (env_of feeds_timeout says_no) ''jay'' = Inl ''timed out'' \<and>
   (8::nat) = next_id (map we_id (task_table system_with_task7)) \<and>
   get_task 7 system_with_task7 = Some task7 \<and> status task7 = ''running'' \<and>
   (1::nat) = (case run_count task7 of None \<Rightarrow> 0 | Some c \<Rightarrow> c) + 1 \<and>
   fst (execute_search_task (env_of feeds_timeout says_no) ''jay'' system_with_task7) = False \<and>
   map_option status
     (get_task 8 (snd (execute_search_task (env_of feeds_timeout says_no) ''jay'' system_with_task7))) =
     Some ''failed'' \<and>
   map_option message
     (get_task 7 (execute_scheduled_task (env_of feeds_timeout says_no) 7 ''jay'' system_with_task7)) =
     Some (run_failed_message ''timed out'')"
proof -
  have h: "optimize_search_keyword ''jay'' (keyword_api (env_of feeds_timeout says_no) ''jay'') =
      Inr ''jay''"
    "search_feeds (env_of feeds_timeout says_no) ''jay'' = Inl ''timed out''"
    by code_simp+
  have c: "(8::nat) = next_id (map we_id (task_table system_with_task7))" by code_simp
  have r: "get_task 7 system_with_task7 = Some task7 \<and> status task7 = ''running'' \<and>
      (1::nat) = (case run_count task7 of None \<Rightarrow> 0 | Some c \<Rightarrow> c) + 1"
    by (simp add: system_with_task7_def get_task_def task7_def)
  from fetch_failure_is_reported [OF h, where new_id = 8 and s = system_with_task7
      and s_created = "snd (execute_search_task (env_of feeds_timeout says_no) ''jay'' system_with_task7)"
      and tid = 7 and task = task7 and n = 1
      and s_fired = "execute_scheduled_task (env_of feeds_timeout says_no) 7 ''jay'' system_with_task7"]
    h c r
  show ?thesis by blast
qed

section \<open>Deleting a task\<close>




section \<open>The ticket of a positive post\<close>




section \<open>The note of a new post\<close>

text \<open>
  C5. For every call of \<open>process_single_feed\<close> on a well-formed post whose note is not
  in the store, whatever the classifier replies: the table of notes after the call is
  the one before it, and the store holds no note of the post's identity. When the reply
  is negative (a failed classification is one), the call nevertheless returns success
  with \<open>is_ticket = False\<close> and the post's identity. The note that the first block
  added and flushed went with the session of that block, and the commit of the last
  block commits a session to which nothing was added.
\<close>

theorem new_post_is_not_stored:
  assumes "modelType f = Some ''note''" and "feed_id f = Some fid" and "fid \<noteq> []"
    and "noteCard f \<noteq> []" and "get_note fid s = None"
  shows
    "note_table (snd (process_single_feed e f tid s)) = note_table s \<and>
     get_note fid (snd (process_single_feed e f tid s)) = None \<and>
     (\<not> ti_is_ticket_resale
          (analyze_ticket_content (classifier e (dict_get (noteCard f) ''displayTitle'' []))) \<longrightarrow>
        fst (process_single_feed e f tid s) = no_ticket_result fid \<and>
        success (fst (process_single_feed e f tid s)) \<and>
        is_ticket (fst (process_single_feed e f tid s)) = Some False \<and>
        res_note_id (fst (process_single_feed e f tid s)) = Some fid \<and>
        ticket_table (snd (process_single_feed e f tid s)) = ticket_table s)"
proof (intro conjI impI)
  show n: "note_table (snd (process_single_feed e f tid s)) = note_table s"
    by (simp add: process_single_feed_frame)
  show "get_note fid (snd (process_single_feed e f tid s)) = None"
    using assms(5) by (simp add: get_note_def n)
next
  assume "\<not> ti_is_ticket_resale
      (analyze_ticket_content (classifier e (dict_get (noteCard f) ''displayTitle'' [])))"
  then have res: "classify_and_store e fid (noteCard f) s =
      (no_ticket_result fid,
       s\<lparr>classified := classified s @ [dict_get (noteCard f) ''displayTitle'' []]\<rparr>)"
    by (simp add: classify_and_store_def Let_def)
  have proc: "process_single_feed e f tid s = classify_and_store e fid (noteCard f) s"
    using assms by (rule process_single_feed_new)
  show "fst (process_single_feed e f tid s) = no_ticket_result fid"
    by (simp add: proc res)
  show "success (fst (process_single_feed e f tid s))"
    by (simp add: proc res no_ticket_result_def)
  show "is_ticket (fst (process_single_feed e f tid s)) = Some False"
    by (simp add: proc res no_ticket_result_def)
  show "res_note_id (fst (process_single_feed e f tid s)) = Some fid"
    by (simp add: proc res no_ticket_result_def)
  show "ticket_table (snd (process_single_feed e f tid s)) = ticket_table s"
    by (simp add: proc res)
qed

theorem new_post_is_not_stored_witness:
  "modelType post_n1 = Some ''note'' \<and> feed_id post_n1 = Some ''n1'' \<and> ''n1'' \<noteq> [] \<and>
   noteCard post_n1 \<noteq> [] \<and> get_note ''n1'' empty_system = None \<and>
   \<not> ti_is_ticket_resale
       (analyze_ticket_content
          (classifier (env_of feeds_n1 says_no) (dict_get (noteCard post_n1) ''displayTitle'' []))) \<and>
   fst (process_single_feed (env_of feeds_n1 says_no) post_n1 7 empty_system) =
     no_ticket_result ''n1'' \<and>
   success (fst (process_single_feed (env_of feeds_n1 says_no) post_n1 7 empty_system)) \<and>
   note_table (snd (process_single_feed (env_of feeds_n1 says_no) post_n1 7 empty_system)) = [] \<and>
   get_note ''n1'' (snd (process_single_feed (env_of feeds_n1 says_no) post_n1 7 empty_system)) =
     None"
proof -
  have h: "modelType post_n1 = Some ''note''" "feed_id post_n1 = Some ''n1''" "''n1'' \<noteq> []"
    "noteCard post_n1 \<noteq> []" "get_note ''n1'' empty_system = None"
    by (simp_all add: post_n1_def empty_system_def get_note_def)
  have neg: "\<not> ti_is_ticket_resale
       (analyze_ticket_content
          (classifier (env_of feeds_n1 says_no) (dict_get (noteCard post_n1) ''displayTitle'' [])))"
    by (simp add: env_of_def says_no_def analyze_ticket_content_def not_a_ticket_def)
  have n: "note_table empty_system = []" by (simp add: empty_system_def)
  from new_post_is_not_stored [OF h, of "env_of feeds_n1 says_no" 7] h neg n show ?thesis
    by (simp add: no_ticket_result_def)
qed

section \<open>One queue for all subscribers\<close>

text \<open>
  C6. One event is published while two subscribers are connected. The stream of
  subscriber 1 yields the event; the stream of subscriber 2 yields a heartbeat and
  never the event, which has left the queue.
\<close>

theorem event_reaches_one_subscriber:
  "delivered one_event_two_subscribers = [(1, Data paused_event), (2, Heartbeat)] \<and>
   stream_events 1 one_event_two_subscribers = [paused_event] \<and>
   stream_events 2 one_event_two_subscribers = [] \<and>
   event_queue one_event_two_subscribers = []"
  by code_simp

section \<open>A run whose search finds nothing\<close>

text \<open>
  C7, as stated, fails. The timer fires for task 7, whose status is \<open>running\<close>, and the
  search returns no post: after the run the status of task 7 is still \<open>running\<close>, not
  \<open>completed\<close>, and the run has published four events. A run started by the creation
  of a task publishes two events when the search returns no post.
\<close>

theorem empty_search_counterexample:
  "get_task 7 system_with_task7 = Some task7 \<and> status task7 = ''running'' \<and>
   optimize_search_keyword ''jay'' (keyword_api (env_of feeds_none says_no) ''jay'') = Inr ''jay'' \<and>
   search_feeds (env_of feeds_none says_no) ''jay'' = Inr [] \<and>
   event_queue system_with_task7 = [] \<and>
   map status
     (task_table (execute_scheduled_task (env_of feeds_none says_no) 7 ''jay'' system_with_task7)) =
     [''running''] \<and>
   length
     (event_queue (execute_scheduled_task (env_of feeds_none says_no) 7 ''jay'' system_with_task7)) = 4 \<and>
   length
     (event_queue (snd (execute_search_task (env_of feeds_none says_no) ''jay'' empty_system))) = 2"
  by code_simp

text \<open>
  C7, amended. When the search of a run returns no post: in a run started by the
  creation of a task, the new task's status becomes \<open>completed\<close>, the run returns
  \<open>False\<close>, and after the event that announced the search exactly one more event is
  published, a \<open>task_update\<close> with status \<open>completed\<close>; in a run started by the
  timer, the task's status stays \<open>running\<close>, its message reports 0 new tickets, and
  the run publishes four \<open>task_update\<close> events with status \<open>running\<close> (the run, the
  search, 0 posts found, the run done with 0 tickets). In both, no post is processed.
\<close>

theorem empty_search_completes:
  assumes "optimize_search_keyword keyword (keyword_api e keyword) = Inr k"
    and "search_feeds e k = Inr []"
  shows
    "(new_id = next_id (map we_id (task_table s)) \<and>
      s_created = snd (execute_search_task e keyword s) \<longrightarrow>
        fst (execute_search_task e keyword s) = False \<and>
        map_option status (get_task new_id s_created) = Some ''completed'' \<and>
        event_queue s_created = event_queue s @
          [\<lparr>ev_type = ''task_update'',
            ev_data = TaskUpdate new_id ''running'' (searching_message keyword k),
            ev_timestamp = now e\<rparr>,
           \<lparr>ev_type = ''task_update'',
            ev_data = TaskUpdate new_id ''completed'' txt_no_data,
            ev_timestamp = now e\<rparr>] \<and>
        note_table s_created = note_table s \<and> ticket_table s_created = ticket_table s \<and>
        classified s_created = classified s) \<and>
     (get_task tid s = Some task \<and> status task = ''running'' \<and>
      n = (case run_count task of None \<Rightarrow> 0 | Some c \<Rightarrow> c) + 1 \<and>
      s_fired = execute_scheduled_task e tid keyword s \<longrightarrow>
        map_option status (get_task tid s_fired) = Some ''running'' \<and>
        map_option message (get_task tid s_fired) = Some (run_done_message n 0) \<and>
        event_queue s_fired = event_queue s @
          [\<lparr>ev_type = ''task_update'',
            ev_data = TaskRunUpdate tid ''running'' (scheduled_run_message n) n
                        (Some (utcnow e)) (Some (utcnow e + schedule_interval task)),
            ev_timestamp = now e\<rparr>,
           \<lparr>ev_type = ''task_update'',
            ev_data = TaskUpdate tid ''running'' (searching_xhs_message k),
            ev_timestamp = now e\<rparr>,
           \<lparr>ev_type = ''task_update'',
            ev_data = TaskUpdate tid ''running'' (found_message 0),
            ev_timestamp = now e\<rparr>,
           \<lparr>ev_type = ''task_update'',
            ev_data = TaskUpdate tid ''running'' (run_done_message n 0),
            ev_timestamp = now e\<rparr>] \<and>
        note_table s_fired = note_table s \<and> ticket_table s_fired = ticket_table s \<and>
        classified s_fired = classified s)"
proof (intro conjI impI)
  assume a: "new_id = next_id (map we_id (task_table s)) \<and>
    s_created = snd (execute_search_task e keyword s)"
  then have id: "new_id = next_id (map we_id (task_table s))" by simp
  define upd :: "WorkflowExecution \<Rightarrow> WorkflowExecution"
    where "upd = (\<lambda>t. t\<lparr>status := ''completed''\<rparr>)"
  have s1: "s_created = notify_clients e ''task_update''
       (TaskUpdate new_id ''completed'' txt_no_data)
       (update_task new_id upd
          ((notify_clients e ''task_update''
              (TaskUpdate new_id ''running'' (searching_message keyword k))
              (add_task_schedule e new_id keyword 60
                 (s\<lparr>task_table := task_table s @ [new_task e new_id keyword k]\<rparr>)))
             \<lparr>searched := searched s @ [k]\<rparr>))"
    using a by (simp add: execute_search_task_empty [OF assms] upd_def)
  have t: "get_task new_id s_created =
      Some (upd ((new_task e new_id keyword k)\<lparr>next_run_at := Some (utcnow e + 60)\<rparr>))"
    unfolding s1 by (rule created_task_found) (simp_all add: upd_def id)
  show "fst (execute_search_task e keyword s) = False"
    by (simp add: execute_search_task_empty [OF assms])
  show "map_option status (get_task new_id s_created) = Some ''completed''"
    by (simp add: t upd_def)
  show "event_queue s_created = event_queue s @
          [\<lparr>ev_type = ''task_update'',
            ev_data = TaskUpdate new_id ''running'' (searching_message keyword k),
            ev_timestamp = now e\<rparr>,
           \<lparr>ev_type = ''task_update'',
            ev_data = TaskUpdate new_id ''completed'' txt_no_data,
            ev_timestamp = now e\<rparr>]"
    by (simp add: s1 add_task_schedule_frame)
  show "note_table s_created = note_table s" by (simp add: s1 add_task_schedule_frame)
  show "ticket_table s_created = ticket_table s" by (simp add: s1 add_task_schedule_frame)
  show "classified s_created = classified s" by (simp add: s1 add_task_schedule_frame)
next
  assume a: "get_task tid s = Some task \<and> status task = ''running'' \<and>
      n = (case run_count task of None \<Rightarrow> 0 | Some c \<Rightarrow> c) + 1 \<and>
      s_fired = execute_scheduled_task e tid keyword s"
  define upd :: "WorkflowExecution \<Rightarrow> WorkflowExecution"
    where "upd = (\<lambda>t. t\<lparr>last_run_at := Some (utcnow e), run_count := Some n,
      next_run_at := Some (utcnow e + schedule_interval task),
      message := scheduled_run_message n\<rparr>)"
  define msg :: "WorkflowExecution \<Rightarrow> WorkflowExecution"
    where "msg = (\<lambda>t. t\<lparr>message := run_done_message n 0\<rparr>)"
  have s2: "s_fired = notify_clients e ''task_update''
       (TaskUpdate tid ''running'' (run_done_message n 0))
       (update_task tid msg
          (notify_clients e ''task_update'' (TaskUpdate tid ''running'' (found_message 0))
             ((notify_clients e ''task_update'' (TaskUpdate tid ''running'' (searching_xhs_message k))
                 (notify_clients e ''task_update''
                    (TaskRunUpdate tid ''running'' (scheduled_run_message n) n
                       (Some (utcnow e)) (Some (utcnow e + schedule_interval task)))
                    (update_task tid upd s)))
                \<lparr>searched := searched s @ [k]\<rparr>)))"
    using a
    by (simp add: execute_scheduled_task_running scheduled_search_found [OF assms]
          upd_def msg_def)
  have p1: "\<And>t. we_id (upd t) = we_id t" by (simp add: upd_def)
  have p2: "\<And>t. we_id (msg t) = we_id t" by (simp add: msg_def)
  note e1 = find_map_update [of upd tid "task_table s", OF p1]
  note e2 = find_map_update [of msg tid
      "map (\<lambda>t. if we_id t = tid then upd t else t) (task_table s)", OF p2]
  have tt: "task_table s_fired =
      map (\<lambda>t. if we_id t = tid then msg t else t)
        (map (\<lambda>t. if we_id t = tid then upd t else t) (task_table s))"
    by (simp add: s2 del: map_map)
  have found: "find (\<lambda>t. we_id t = tid) (task_table s) = Some task"
    using a by (simp add: get_task_def)
  have t: "get_task tid s_fired = Some (msg (upd task))"
    unfolding get_task_def tt e2 e1 found by simp
  have st: "status task = ''running''" using a by simp
  show "map_option status (get_task tid s_fired) = Some ''running''"
    using st by (simp add: t msg_def upd_def)
  show "map_option message (get_task tid s_fired) = Some (run_done_message n 0)"
    by (simp add: t msg_def)
  show "event_queue s_fired = event_queue s @
          [\<lparr>ev_type = ''task_update'',
            ev_data = TaskRunUpdate tid ''running'' (scheduled_run_message n) n
                        (Some (utcnow e)) (Some (utcnow e + schedule_interval task)),
            ev_timestamp = now e\<rparr>,
           \<lparr>ev_type = ''task_update'',
            ev_data = TaskUpdate tid ''running'' (searching_xhs_message k),
            ev_timestamp = now e\<rparr>,
           \<lparr>ev_type = ''task_update'',
            ev_data = TaskUpdate tid ''running'' (found_message 0),
            ev_timestamp = now e\<rparr>,
           \<lparr>ev_type = ''task_update'',
            ev_data = TaskUpdate tid ''running'' (run_done_message n 0),
            ev_timestamp = now e\<rparr>]"
    by (simp add: s2)
  show "note_table s_fired = note_table s" by (simp add: s2)
  show "ticket_table s_fired = ticket_table s" by (simp add: s2)
  show "classified s_fired = classified s" by (simp add: s2)
qed

theorem empty_search_completes_witness:
  "optimize_search_keyword ''jay'' (keyword_api (env_of feeds_none says_no) ''jay'') = Inr ''jay'' \<and>
   search_feeds (env_of feeds_none says_no) ''jay'' = Inr [] \<and>
   (8::nat) = next_id (map we_id (task_table system_with_task7)) \<and>
   get_task 7 system_with_task7 = Some task7 \<and> status task7 = ''running'' \<and>
   (1::nat) = (case run_count task7 of None \<Rightarrow> 0 | Some c \<Rightarrow> c) + 1 \<and>
   fst (execute_search_task (env_of feeds_none says_no) ''jay'' system_with_task7) = False \<and>
   map_option status
     (get_task 8 (snd (execute_search_task (env_of feeds_none says_no) ''jay'' system_with_task7))) =
     Some ''completed'' \<and>
   map_option status
     (get_task 7 (execute_scheduled_task (env_of feeds_none says_no) 7 ''jay'' system_with_task7)) =
     Some ''running''"
proof -
  have h: "optimize_search_keyword ''jay'' (keyword_api (env_of feeds_none says_no) ''jay'') =
      Inr ''jay''"
    "search_feeds (env_of feeds_none says_no) ''jay'' = Inr []"
    by code_simp+
  have c: "(8::nat) = next_id (map we_id (task_table system_with_task7))" by code_simp
  have r: "get_task 7 system_with_task7 = Some task7 \<and> status task7 = ''running'' \<and>
      (1::nat) = (case run_count task7 of None \<Rightarrow> 0 | Some c \<Rightarrow> c) + 1"
    by (simp add: system_with_task7_def get_task_def task7_def)
  from empty_search_completes [OF h, where new_id = 8 and s = system_with_task7
      and s_created = "snd (execute_search_task (env_of feeds_none says_no) ''jay'' system_with_task7)"
      and tid = 7 and task = task7 and n = 1
      and s_fired = "execute_scheduled_task (env_of feeds_none says_no) 7 ''jay'' system_with_task7"]
    h c r
  show ?thesis by blast
qed

section \<open>The timer's callback\<close>

text \<open>
  C8. When the timer fires for a task whose status is anything but \<open>running\<close>
  (\<open>paused\<close>, \<open>stopped\<close>, \<open>failed\<close>, \<open>completed\<close>), the callback returns the state
  as it was: no search, no event, no change of any task. When the status is
  \<open>running\<close>, the run counter becomes one more than it was (a missing counter counts
  as 0), the last run is the time of the fire and the next run is one interval later,
  the first event published is the \<open>task_update\<close> that announces the run, and the feed
  service is searched exactly once. When that search returns a list of posts, the run
  is carried out on them: the search was for the optimised keyword; the classifier is
  called for the new posts of the list, in the order of the list, and for no other; the
  tickets after the run are those after one call of \<open>process_single_feed\<close> for each
  post of the list in turn; no note is added; the task's message records the number of
  the run and the number of tickets added; and the events of the run are the four
  \<open>task_update\<close> events that announce the run, the search, the number of posts found
  and the end of the run.
\<close>

theorem timer_fire_runs_only_when_running:
  "(get_task tid s = Some task \<and> status task \<noteq> ''running'' \<longrightarrow>
      execute_scheduled_task e tid kw s = s) \<and>
   (get_task tid s = Some task \<and> status task = ''running'' \<and>
    n = (case run_count task of None \<Rightarrow> 0 | Some c \<Rightarrow> c) + 1 \<longrightarrow>
      map_option run_count (get_task tid (execute_scheduled_task e tid kw s)) = Some (Some n) \<and>
      map_option last_run_at (get_task tid (execute_scheduled_task e tid kw s)) =
        Some (Some (utcnow e)) \<and>
      map_option next_run_at (get_task tid (execute_scheduled_task e tid kw s)) =
        Some (Some (utcnow e + schedule_interval task)) \<and>
      (\<exists>rest. event_queue (execute_scheduled_task e tid kw s) =
         event_queue s @
           \<lparr>ev_type = ''task_update'',
            ev_data = TaskRunUpdate tid ''running'' (scheduled_run_message n) n
                        (Some (utcnow e)) (Some (utcnow e + schedule_interval task)),
            ev_timestamp = now e\<rparr> # rest) \<and>
      (\<exists>k. searched (execute_scheduled_task e tid kw s) = searched s @ [k])) \<and>
   (get_task tid s = Some task \<and> status task = ''running'' \<and>
    n = (case run_count task of None \<Rightarrow> 0 | Some c \<Rightarrow> c) + 1 \<and>
    optimize_search_keyword kw (keyword_api e kw) = Inr k \<and> search_feeds e k = Inr feeds \<longrightarrow>
      searched (execute_scheduled_task e tid kw s) = searched s @ [k] \<and>
      classified (execute_scheduled_task e tid kw s) =
        classified s @ map title_of (filter (is_new_post s) feeds) \<and>
      ticket_table (execute_scheduled_task e tid kw s) =
        ticket_table (foldl (\<lambda>st f. snd (process_single_feed e f tid st)) s feeds) \<and>
      note_table (execute_scheduled_task e tid kw s) = note_table s \<and>
      map_option message (get_task tid (execute_scheduled_task e tid kw s)) =
        Some (run_done_message n
                (length (ticket_table (execute_scheduled_task e tid kw s)) -
                 length (ticket_table s))) \<and>
      event_queue (execute_scheduled_task e tid kw s) =
        event_queue s @
          [\<lparr>ev_type = ''task_update'',
            ev_data = TaskRunUpdate tid ''running'' (scheduled_run_message n) n
                        (Some (utcnow e)) (Some (utcnow e + schedule_interval task)),
            ev_timestamp = now e\<rparr>,
           \<lparr>ev_type = ''task_update'',
            ev_data = TaskUpdate tid ''running'' (searching_xhs_message k),
            ev_timestamp = now e\<rparr>,
           \<lparr>ev_type = ''task_update'',
            ev_data = TaskUpdate tid ''running'' (found_message (length feeds)),
            ev_timestamp = now e\<rparr>,
           \<lparr>ev_type = ''task_update'',
            ev_data = TaskUpdate tid ''running''
                        (run_done_message n
                           (length (ticket_table (execute_scheduled_task e tid kw s)) -
                            length (ticket_table s))),
            ev_timestamp = now e\<rparr>])"
proof (intro conjI impI)
  assume "get_task tid s = Some task \<and> status task \<noteq> ''running''"
  then show "execute_scheduled_task e tid kw s = s"
    by (simp add: execute_scheduled_task_skips)
next
  assume a: "get_task tid s = Some task \<and> status task = ''running'' \<and>
    n = (case run_count task of None \<Rightarrow> 0 | Some c \<Rightarrow> c) + 1"
  define upd :: "WorkflowExecution \<Rightarrow> WorkflowExecution" where "upd = (\<lambda>t. t\<lparr>last_run_at := Some (utcnow e), run_count := Some n,
      next_run_at := Some (utcnow e + schedule_interval task),
      message := scheduled_run_message n\<rparr>)"
  define ev where "ev = \<lparr>ev_type = ''task_update'',
      ev_data = TaskRunUpdate tid ''running'' (scheduled_run_message n) n
                  (Some (utcnow e)) (Some (utcnow e + schedule_interval task)),
      ev_timestamp = now e\<rparr>"
  define s2 where "s2 = notify_clients e ''task_update''
      (TaskRunUpdate tid ''running'' (scheduled_run_message n) n
         (Some (utcnow e)) (Some (utcnow e + schedule_interval task)))
      (update_task tid upd s)"
  have run: "execute_scheduled_task e tid kw s = scheduled_search e tid kw n s2"
    using a by (simp add: execute_scheduled_task_running s2_def upd_def)
  obtain k where k: "optimize_search_keyword kw (keyword_api e kw) = Inr k"
    using optimize_search_keyword_returns by blast
  from scheduled_search_effects [OF k, of tid n s2]
  obtain rest m where eff: "searched (scheduled_search e tid kw n s2) = searched s2 @ [k]"
      "event_queue (scheduled_search e tid kw n s2) = event_queue s2 @ rest"
      "task_table (scheduled_search e tid kw n s2) =
         map (\<lambda>t. if we_id t = tid then t\<lparr>message := m\<rparr> else t) (task_table s2)"
    by blast
  have t2: "get_task tid s2 = Some (upd task)"
    using a get_task_update_task [of upd tid s]
    by (simp add: s2_def get_task_def upd_def)
  have "get_task tid (scheduled_search e tid kw n s2) = Some ((upd task)\<lparr>message := m\<rparr>)"
    using t2 find_map_update [of "\<lambda>t. t\<lparr>message := m\<rparr>" tid "task_table s2"]
    by (simp add: get_task_def eff(3))
  then have fields:
    "map_option run_count (get_task tid (execute_scheduled_task e tid kw s)) = Some (Some n)"
    "map_option last_run_at (get_task tid (execute_scheduled_task e tid kw s)) =
        Some (Some (utcnow e))"
    "map_option next_run_at (get_task tid (execute_scheduled_task e tid kw s)) =
        Some (Some (utcnow e + schedule_interval task))"
    by (simp_all add: run upd_def)
  have q: "event_queue (execute_scheduled_task e tid kw s) = event_queue s @ ev # rest"
    unfolding run eff(2) by (simp add: s2_def ev_def)
  have sr: "searched (execute_scheduled_task e tid kw s) = searched s @ [k]"
    unfolding run eff(1) by (simp add: s2_def)
  show "map_option run_count (get_task tid (execute_scheduled_task e tid kw s)) = Some (Some n)"
    by (rule fields(1))
  show "map_option last_run_at (get_task tid (execute_scheduled_task e tid kw s)) =
        Some (Some (utcnow e))"
    by (rule fields(2))
  show "map_option next_run_at (get_task tid (execute_scheduled_task e tid kw s)) =
        Some (Some (utcnow e + schedule_interval task))"
    by (rule fields(3))
  show "\<exists>rest. event_queue (execute_scheduled_task e tid kw s) =
         event_queue s @
           \<lparr>ev_type = ''task_update'',
            ev_data = TaskRunUpdate tid ''running'' (scheduled_run_message n) n
                        (Some (utcnow e)) (Some (utcnow e + schedule_interval task)),
            ev_timestamp = now e\<rparr> # rest"
    using q by (auto simp: ev_def)
  show "\<exists>k. searched (execute_scheduled_task e tid kw s) = searched s @ [k]"
    using sr by blast
next
  assume a: "get_task tid s = Some task \<and> status task = ''running'' \<and>
    n = (case run_count task of None \<Rightarrow> 0 | Some c \<Rightarrow> c) + 1 \<and>
    optimize_search_keyword kw (keyword_api e kw) = Inr k \<and> search_feeds e k = Inr feeds"
  define upd :: "WorkflowExecution \<Rightarrow> WorkflowExecution" where "upd = (\<lambda>t. t\<lparr>last_run_at := Some (utcnow e), run_count := Some n,
      next_run_at := Some (utcnow e + schedule_interval task),
      message := scheduled_run_message n\<rparr>)"
  define s2 where "s2 = notify_clients e ''task_update''
      (TaskRunUpdate tid ''running'' (scheduled_run_message n) n
         (Some (utcnow e)) (Some (utcnow e + schedule_interval task)))
      (update_task tid upd s)"
  define s3 where "s3 = notify_clients e ''task_update''
      (TaskUpdate tid ''running'' (found_message (length feeds)))
      ((notify_clients e ''task_update'' (TaskUpdate tid ''running'' (searching_xhs_message k)) s2)
         \<lparr>searched := searched s2 @ [k]\<rparr>)"
  obtain c s4 where l: "scheduled_loop e tid feeds 0 s3 = (c, s4)"
    by (cases "scheduled_loop e tid feeds 0 s3")
  have k: "optimize_search_keyword kw (keyword_api e kw) = Inr k"
    and fs: "search_feeds e k = Inr feeds"
    using a by simp_all
  have run: "execute_scheduled_task e tid kw s = scheduled_search e tid kw n s2"
    using a by (simp add: execute_scheduled_task_running s2_def upd_def)
  have fin: "execute_scheduled_task e tid kw s =
      notify_clients e ''task_update'' (TaskUpdate tid ''running'' (run_done_message n c))
        (update_task tid (\<lambda>t. t\<lparr>message := run_done_message n c\<rparr>) s4)"
    unfolding run scheduled_search_found [OF k fs] s3_def [symmetric] l by simp
  have same3: "note_table s3 = note_table s" "ticket_table s3 = ticket_table s"
    "classified s3 = classified s" "searched s3 = searched s @ [k]"
    "task_table s3 = task_table s2"
    by (simp_all add: s3_def s2_def)
  have q3: "event_queue s3 = event_queue s @
      [\<lparr>ev_type = ''task_update'',
        ev_data = TaskRunUpdate tid ''running'' (scheduled_run_message n) n
                    (Some (utcnow e)) (Some (utcnow e + schedule_interval task)),
        ev_timestamp = now e\<rparr>,
       \<lparr>ev_type = ''task_update'',
        ev_data = TaskUpdate tid ''running'' (searching_xhs_message k),
        ev_timestamp = now e\<rparr>,
       \<lparr>ev_type = ''task_update'',
        ev_data = TaskUpdate tid ''running'' (found_message (length feeds)),
        ev_timestamp = now e\<rparr>]"
    by (simp add: s3_def s2_def)
  have f4: "task_table s4 = task_table s3" "event_queue s4 = event_queue s3"
    "searched s4 = searched s3" "note_table s4 = note_table s3"
    using scheduled_loop_frame [of e tid feeds 0 s3] l by simp_all
  have c4: "classified s4 = classified s @ map title_of (filter (is_new_post s) feeds)"
    using scheduled_loop_classified [of e tid feeds 0 s3] l
    by (simp add: same3 is_new_post_same_notes [OF same3(1)])
  have t4: "ticket_table s4 =
      ticket_table (foldl (\<lambda>st f. snd (process_single_feed e f tid st)) s feeds)"
    using scheduled_loop_tickets [OF same3(1,2), of e tid feeds 0] l by simp
  have "c + length (ticket_table s3) = length (ticket_table s4)"
    using scheduled_loop_count [of e tid feeds 0 s3] l by simp
  then have cnt: "c = length (ticket_table s4) - length (ticket_table s)"
    by (simp add: same3)
  have tt: "ticket_table (execute_scheduled_task e tid kw s) = ticket_table s4"
    by (simp add: fin)
  have t2: "get_task tid s2 = Some (upd task)"
    using a get_task_update_task [of upd tid s]
    by (simp add: s2_def get_task_def upd_def)
  have "get_task tid (execute_scheduled_task e tid kw s) =
      Some ((upd task)\<lparr>message := run_done_message n c\<rparr>)"
    using t2 find_map_update [of "\<lambda>t. t\<lparr>message := run_done_message n c\<rparr>" tid "task_table s2"]
    by (simp add: get_task_def fin f4 same3)
  then have msg: "map_option message (get_task tid (execute_scheduled_task e tid kw s)) =
      Some (run_done_message n c)"
    by simp
  show "searched (execute_scheduled_task e tid kw s) = searched s @ [k]"
    by (simp add: fin f4 same3)
  show "classified (execute_scheduled_task e tid kw s) =
      classified s @ map title_of (filter (is_new_post s) feeds)"
    by (simp add: fin c4)
  show "ticket_table (execute_scheduled_task e tid kw s) =
      ticket_table (foldl (\<lambda>st f. snd (process_single_feed e f tid st)) s feeds)"
    by (simp add: tt t4)
  show "note_table (execute_scheduled_task e tid kw s) = note_table s"
    by (simp add: fin f4 same3)
  show "map_option message (get_task tid (execute_scheduled_task e tid kw s)) =
      Some (run_done_message n
              (length (ticket_table (execute_scheduled_task e tid kw s)) -
               length (ticket_table s)))"
    unfolding tt cnt [symmetric] by (rule msg)
  show "event_queue (execute_scheduled_task e tid kw s) =
      event_queue s @
        [\<lparr>ev_type = ''task_update'',
          ev_data = TaskRunUpdate tid ''running'' (scheduled_run_message n) n
                      (Some (utcnow e)) (Some (utcnow e + schedule_interval task)),
          ev_timestamp = now e\<rparr>,
         \<lparr>ev_type = ''task_update'',
          ev_data = TaskUpdate tid ''running'' (searching_xhs_message k),
          ev_timestamp = now e\<rparr>,
         \<lparr>ev_type = ''task_update'',
          ev_data = TaskUpdate tid ''running'' (found_message (length feeds)),
          ev_timestamp = now e\<rparr>,
         \<lparr>ev_type = ''task_update'',
          ev_data = TaskUpdate tid ''running''
                      (run_done_message n
                         (length (ticket_table (execute_scheduled_task e tid kw s)) -
                          length (ticket_table s))),
          ev_timestamp = now e\<rparr>]"
    unfolding tt cnt [symmetric] by (simp add: fin f4 q3)
qed

theorem timer_fire_runs_only_when_running_witness:
  "get_task 7 system_with_paused7 = Some (task7\<lparr>status := ''paused''\<rparr>) \<and>
   status (task7\<lparr>status := ''paused''\<rparr>) \<noteq> ''running'' \<and>
   execute_scheduled_task (env_of feeds_n1 says_yes) 7 ''jay'' system_with_paused7 =
     system_with_paused7 \<and>
   get_task 7 system_with_task7 = Some task7 \<and> status task7 = ''running'' \<and>
   (1::nat) = (case run_count task7 of None \<Rightarrow> 0 | Some c \<Rightarrow> c) + 1 \<and>
   optimize_search_keyword ''jay'' (keyword_api (env_of feeds_n1 says_yes) ''jay'') = Inr ''jay'' \<and>
   search_feeds (env_of feeds_n1 says_yes) ''jay'' = Inr [post_n1] \<and>
   map_option run_count
     (get_task 7 (execute_scheduled_task (env_of feeds_n1 says_yes) 7 ''jay'' system_with_task7)) =
     Some (Some 1) \<and>
   searched (execute_scheduled_task (env_of feeds_n1 says_yes) 7 ''jay'' system_with_task7) =
     searched system_with_task7 @ [''jay''] \<and>
   classified (execute_scheduled_task (env_of feeds_n1 says_yes) 7 ''jay'' system_with_task7) =
     classified system_with_task7 @ map title_of (filter (is_new_post system_with_task7) [post_n1]) \<and>
   map title_of (filter (is_new_post system_with_task7) [post_n1]) = [''two tickets for sale''] \<and>
   ticket_table (execute_scheduled_task (env_of feeds_n1 says_yes) 7 ''jay'' system_with_task7) =
     ticket_table
       (foldl (\<lambda>st f. snd (process_single_feed (env_of feeds_n1 says_yes) f 7 st))
          system_with_task7 [post_n1]) \<and>
   map ticket_note_id
     (ticket_table
        (foldl (\<lambda>st f. snd (process_single_feed (env_of feeds_n1 says_yes) f 7 st))
           system_with_task7 [post_n1])) = [Some ''n1'']"
proof -
  have p: "get_task 7 system_with_paused7 = Some (task7\<lparr>status := ''paused''\<rparr>) \<and>
      status (task7\<lparr>status := ''paused''\<rparr>) \<noteq> ''running''"
    by (simp add: system_with_paused7_def get_task_def task7_def)
  have r: "get_task 7 system_with_task7 = Some task7 \<and> status task7 = ''running'' \<and>
      (1::nat) = (case run_count task7 of None \<Rightarrow> 0 | Some c \<Rightarrow> c) + 1"
    by (simp add: system_with_task7_def get_task_def task7_def)
  have o: "optimize_search_keyword ''jay'' (keyword_api (env_of feeds_n1 says_yes) ''jay'') =
      Inr ''jay'' \<and> search_feeds (env_of feeds_n1 says_yes) ''jay'' = Inr [post_n1]"
    by code_simp
  have v: "map title_of (filter (is_new_post system_with_task7) [post_n1]) =
      [''two tickets for sale''] \<and>
    map ticket_note_id
     (ticket_table
        (foldl (\<lambda>st f. snd (process_single_feed (env_of feeds_n1 says_yes) f 7 st))
           system_with_task7 [post_n1])) = [Some ''n1'']"
    by code_simp
  from p have a: "execute_scheduled_task (env_of feeds_n1 says_yes) 7 ''jay'' system_with_paused7 =
     system_with_paused7"
    using timer_fire_runs_only_when_running
      [of 7 system_with_paused7 "task7\<lparr>status := ''paused''\<rparr>" "env_of feeds_n1 says_yes" "''jay''"]
    by blast
  from r o have b: "map_option run_count
       (get_task 7 (execute_scheduled_task (env_of feeds_n1 says_yes) 7 ''jay'' system_with_task7)) =
       Some (Some 1) \<and>
     searched (execute_scheduled_task (env_of feeds_n1 says_yes) 7 ''jay'' system_with_task7) =
       searched system_with_task7 @ [''jay''] \<and>
     classified (execute_scheduled_task (env_of feeds_n1 says_yes) 7 ''jay'' system_with_task7) =
       classified system_with_task7 @
         map title_of (filter (is_new_post system_with_task7) [post_n1]) \<and>
     ticket_table (execute_scheduled_task (env_of feeds_n1 says_yes) 7 ''jay'' system_with_task7) =
       ticket_table
         (foldl (\<lambda>st f. snd (process_single_feed (env_of feeds_n1 says_yes) f 7 st))
            system_with_task7 [post_n1])"
    using timer_fire_runs_only_when_running
      [of 7 system_with_task7 task7 "env_of feeds_n1 says_yes" "''jay''" 1 "''jay''" "[post_n1]"]
    by blast
  from p r o v a b show ?thesis by blast
qed

section \<open>Keyword optimisation never fails its caller\<close>

text \<open>
  C9. For every keyword and every outcome of the optimisation request,
  \<open>optimize_search_keyword\<close> returns a keyword and raises nothing; when the request
  fails in any way (it raises, the status is not 200, the content is missing or
  malformed, or it is empty after stripping), the keyword returned is the original one.
\<close>

theorem optimize_search_keyword_fails_open:
  "(\<exists>k. optimize_search_keyword kw post = Inr k) \<and>
   (optimization_failed post \<longrightarrow> optimize_search_keyword kw post = Inr kw)"
  by (auto simp: optimize_search_keyword_def optimize_try_body_def try_except_def bind_err_def
        optimization_failed_def split: sum.splits if_splits)

theorem optimize_search_keyword_fails_open_witness:
  "optimization_failed (api_down ''jay'') \<and>
   optimize_search_keyword ''jay'' (api_down ''jay'') = Inr ''jay''"
  using optimize_search_keyword_fails_open [of "''jay''" "api_down ''jay''"]
  by (simp add: optimization_failed_def api_down_def)

section \<open>Pause, resume and cancel look the timer up under the wrong key\<close>

text \<open>
  The registry \<open>task_jobs\<close> is filled by \<open>add_task_schedule\<close> only, with the task id as
  key; a registry all of whose keys are task ids never contains a job id, so the three
  operations return \<open>False\<close> and change nothing, whatever the store holds.
\<close>

lemma int_keys_not_found:
  assumes "\<forall>k \<in> fst ` set (task_jobs s). \<exists>n. k = KInt n"
  shows "\<not> job_id_in_task_jobs jid s"
proof -
  have "KStr jid \<notin> fst ` set (task_jobs s)" using assms by auto
  then show ?thesis by (simp add: job_id_in_task_jobs_def map_of_eq_None_iff)
qed

lemma add_task_schedule_int_keys:
  assumes "\<forall>k \<in> fst ` set (task_jobs s). \<exists>n. k = KInt n"
  shows "\<forall>k \<in> fst ` set (task_jobs (add_task_schedule e tid kw i s)). \<exists>n. k = KInt n"
  using assms int_keys_not_found [OF assms]
  by (auto simp: add_task_schedule_def Let_def dict_set_def)

lemma int_keys_pause_resume_remove:
  assumes "\<forall>k \<in> fst ` set (task_jobs s). \<exists>n. k = KInt n"
  shows "pause_task_schedule tid s = (False, s)"
    and "resume_task_schedule tid s = (False, s)"
    and "remove_task_schedule tid s = (False, s)"
  using int_keys_not_found [OF assms]
  by (simp_all add: pause_task_schedule_def resume_task_schedule_def remove_task_schedule_def)

text \<open>
  C10. A timer is registered for task 7 (the registry maps 7 to \<open>task_7\<close> and the
  scheduler holds the job) and the store has no record of task 7. Pause, resume and
  cancel each return \<open>False\<close> and leave the state, the job included, as it was: the
  timer is not acted on.
\<close>

theorem registered_timer_is_not_found:
  "map_of (task_jobs registered_without_record) (KInt 7) = Some ''task_7'' \<and>
   map_of (jobs registered_without_record) ''task_7'' =
     Some \<lparr>job_task_id = 7, job_keyword = ''jay'', job_seconds = 60, job_paused = False\<rparr> \<and>
   get_task 7 registered_without_record = None \<and>
   pause_task_schedule 7 registered_without_record = (False, registered_without_record) \<and>
   resume_task_schedule 7 registered_without_record = (False, registered_without_record) \<and>
   remove_task_schedule 7 registered_without_record = (False, registered_without_record)"
  by code_simp

end
